theory Spec2Isabelle
  imports Main "HOL-Library.Word"
begin

section \<open>Conventions of the embedding\<close>

text \<open>
  The development embeds the two headers of the repository, \<^verbatim>\<open>array_ptr.h\<close> (class
  \<^verbatim>\<open>ArrayPtr\<close>) and the vector header (class \<^verbatim>\<open>SimpleVector\<close> and its comparison
  operators).

  \<^item> \<^verbatim>\<open>size_t\<close> is a 64-bit word, so \<^verbatim>\<open>capacity_ * 2\<close>, \<^verbatim>\<open>++size_\<close> and \<^verbatim>\<open>--size_\<close>
    wrap around as they do in the program.
  \<^item> A heap array made by \<^verbatim>\<open>new Type[n]\<close> is a list of \<open>n\<close> slots. A slot holds
    \<open>None\<close> as long as nothing has been written to it (for a scalar \<^verbatim>\<open>Type\<close> its value
    is indeterminate) and \<open>Some x\<close> afterwards.
  \<^item> An \<^verbatim>\<open>ArrayPtr\<close> is a record with the field \<open>raw_ptr\<close> (the member \<^verbatim>\<open>raw_ptr_\<close>; a
    name cannot end in an underscore here). Its value is \<open>None\<close> for \<^verbatim>\<open>nullptr\<close> and
    \<open>Some h\<close> for a handle \<open>h\<close>. Inside a \<^verbatim>\<open>SimpleVector\<close>, which is the only owner of
    its array, the handle is the array itself.
  \<^item> The members \<^verbatim>\<open>size_\<close>, \<^verbatim>\<open>capacity_\<close>, \<^verbatim>\<open>data_\<close> are the fields \<open>size_m\<close>,
    \<open>capacity_m\<close>, \<open>data_m\<close>.
  \<^item> An iterator (\<^verbatim>\<open>Type*\<close>) is the number of elements between \<^verbatim>\<open>data_.Get()\<close> and
    the position pointed to, so \<^verbatim>\<open>begin()\<close> is \<open>0\<close> and \<^verbatim>\<open>end()\<close> is the size. A
    pointer to before the buffer, or into another buffer, has no counterpart.
  \<^item> \<^verbatim>\<open>Type()\<close> is a parameter \<open>dflt\<close> of every operation that value-initialises.
  \<^item> An element parameter (\<^verbatim>\<open>const Type&\<close> or \<^verbatim>\<open>Type&&\<close>) is a reference. Its referent
    is either an object outside the vector's buffer, or a slot of the array that
    \<^verbatim>\<open>data_\<close> points to when the call starts, as in \<^verbatim>\<open>v.PushBack(v[0])\<close>. The reference
    is read where the source reads it.
  \<^item> An operation returns \<open>Inr\<close> of its result, or \<open>Inl\<close> of an error: \<open>OutOfRange\<close>
    for the exception \<^verbatim>\<open>std::out_of_range\<close>; \<open>UndefinedBehaviour\<close> where the program
    reads or writes outside an array, through \<^verbatim>\<open>nullptr\<close> or in an array that has been
    freed, or compares or reads through an element reference a slot that was never
    written; \<open>IllFormed\<close> where a program that calls the operation does not compile.
    A range copy of a slot that was never written copies \<open>None\<close>. Failure of \<^verbatim>\<open>new\<close> is
    not modelled: an allocation always succeeds.
  \<^item> \<^verbatim>\<open>std::move\<close> of an element is modelled as a copy: the moved-from slot keeps its
    value, as it does for a scalar \<^verbatim>\<open>Type\<close>.
\<close>

type_synonym size_t = "64 word"

datatype error = OutOfRange | UndefinedBehaviour | IllFormed

definition and_then :: "error + 'a \<Rightarrow> ('a \<Rightarrow> error + 'b) \<Rightarrow> error + 'b" where
  "and_then m f = (case m of Inl e \<Rightarrow> Inl e | Inr x \<Rightarrow> f x)"

section \<open>The owning buffer: \<^verbatim>\<open>ArrayPtr\<close>\<close>

record 'p ArrayPtr =
  raw_ptr :: "'p option"

type_synonym 'a slot = "'a option"
type_synonym 'a block = "'a slot list"

text \<open>\<^verbatim>\<open>ArrayPtr() = default\<close>: the null pointer.\<close>

definition ArrayPtr_default :: "'p ArrayPtr" where
  "ArrayPtr_default = \<lparr>raw_ptr = None\<rparr>"

text \<open>\<^verbatim>\<open>explicit ArrayPtr(size_t size)\<close>: \<^verbatim>\<open>nullptr\<close> for size 0, else \<^verbatim>\<open>new Type[size]\<close>.\<close>

definition ArrayPtr_new :: "size_t \<Rightarrow> 'a block ArrayPtr" where
  "ArrayPtr_new sz =
     (if sz = 0 then \<lparr>raw_ptr = None\<rparr>
      else \<lparr>raw_ptr = Some (replicate (unat sz) None)\<rparr>)"

text \<open>\<^verbatim>\<open>explicit ArrayPtr(Type* raw_ptr)\<close>.\<close>

definition ArrayPtr_adopt :: "'p option \<Rightarrow> 'p ArrayPtr" where
  "ArrayPtr_adopt p = \<lparr>raw_ptr = p\<rparr>"

text \<open>
  \<^verbatim>\<open>ArrayPtr(ArrayPtr&& other)\<close>: the new object takes the handle, \<open>other\<close> is left null.
  The result is the pair (new object, \<open>other\<close> afterwards).
\<close>

definition ArrayPtr_move :: "'p ArrayPtr \<Rightarrow> 'p ArrayPtr \<times> 'p ArrayPtr" where
  "ArrayPtr_move other = (\<lparr>raw_ptr = raw_ptr other\<rparr>, other\<lparr>raw_ptr := None\<rparr>)"

text \<open>
  \<^verbatim>\<open>std::exchange(obj, new_value)\<close> stores \<open>new_value\<close> in \<open>obj\<close> and returns the old
  value of \<open>obj\<close>. It assigns to \<open>obj\<close>, so for an \<open>obj\<close> of a \<^verbatim>\<open>const\<close> type the call does
  not compile. The result is the pair (\<open>obj\<close> afterwards, returned value).
\<close>

datatype constness = Mutable | Const

definition std_exchange ::
  "constness \<Rightarrow> 'p option \<Rightarrow> 'p option \<Rightarrow> error + ('p option \<times> 'p option)" where
  "std_exchange q obj new_value =
     (case q of Const \<Rightarrow> Inl IllFormed | Mutable \<Rightarrow> Inr (new_value, obj))"

text \<open>
  The two assignment operators compare the addresses of \<open>this\<close> and \<open>other\<close>, so they
  are modelled on a store of \<^verbatim>\<open>ArrayPtr\<close> objects indexed by address. The body of both is
  \<^verbatim>\<open>if (this == &other) return *this; raw_ptr_ = std::exchange(other.raw_ptr_, nullptr);\<close>

  In \<^verbatim>\<open>operator=(ArrayPtr&& other)\<close> the member \<^verbatim>\<open>other.raw_ptr_\<close> is mutable.
\<close>

type_synonym 'p objects = "nat \<Rightarrow> 'p ArrayPtr"

definition move_assign :: "nat \<Rightarrow> nat \<Rightarrow> 'p objects \<Rightarrow> error + 'p objects" where
  "move_assign this other s =
     (if this = other then Inr s
      else
        and_then (std_exchange Mutable (raw_ptr (s other)) None) (\<lambda>(other_ptr, old).
        let s1 = s(other := (s other)\<lparr>raw_ptr := other_ptr\<rparr>)
        in Inr (s1(this := (s1 this)\<lparr>raw_ptr := old\<rparr>))))"

text \<open>
  In \<^verbatim>\<open>operator=(const ArrayPtr& other)\<close> the parameter is \<^verbatim>\<open>const\<close>, so
  \<^verbatim>\<open>other.raw_ptr_\<close> is a \<^verbatim>\<open>Type* const\<close> and the call of \<^verbatim>\<open>std::exchange\<close> is rejected.
  The operator is a member of a class template, so the compiler checks its body only
  when a program uses it, and then checks the whole body: the rejection does not depend
  on the addresses, and comes first in the model.
\<close>

definition copy_assign :: "nat \<Rightarrow> nat \<Rightarrow> 'p objects \<Rightarrow> error + 'p objects" where
  "copy_assign this other s =
     and_then (std_exchange Const (raw_ptr (s other)) None) (\<lambda>(other_ptr, old).
     if this = other then Inr s
     else
       let s1 = s(other := (s other)\<lparr>raw_ptr := other_ptr\<rparr>)
       in Inr (s1(this := (s1 this)\<lparr>raw_ptr := old\<rparr>)))"

text \<open>\<^verbatim>\<open>Release()\<close>: the handle and the object afterwards.\<close>

definition Release :: "'p ArrayPtr \<Rightarrow> 'p option \<times> 'p ArrayPtr" where
  "Release p = (let result = raw_ptr p in (result, p\<lparr>raw_ptr := None\<rparr>))"

definition Get :: "'p ArrayPtr \<Rightarrow> 'p option" where
  "Get p = raw_ptr p"

text \<open>\<^verbatim>\<open>explicit operator bool()\<close>.\<close>

definition to_bool :: "'p ArrayPtr \<Rightarrow> bool" where
  "to_bool p = (raw_ptr p \<noteq> None)"

text \<open>\<^verbatim>\<open>swap(ArrayPtr& other)\<close>: the pair (\<open>this\<close>, \<open>other\<close>) afterwards.\<close>

definition ArrayPtr_swap :: "'p ArrayPtr \<Rightarrow> 'p ArrayPtr \<Rightarrow> 'p ArrayPtr \<times> 'p ArrayPtr" where
  "ArrayPtr_swap this other =
     (let previous_value = raw_ptr this
      in (this\<lparr>raw_ptr := raw_ptr other\<rparr>, other\<lparr>raw_ptr := previous_value\<rparr>))"

text \<open>The slots that a pointer addresses: none for \<^verbatim>\<open>nullptr\<close>.\<close>

definition cells :: "'a block ArrayPtr \<Rightarrow> 'a slot list" where
  "cells p = (case raw_ptr p of None \<Rightarrow> [] | Some b \<Rightarrow> b)"

text \<open>The pointer after its array has been overwritten in place.\<close>

definition with_cells :: "'a block ArrayPtr \<Rightarrow> 'a slot list \<Rightarrow> 'a block ArrayPtr" where
  "with_cells p b = (case raw_ptr p of None \<Rightarrow> p | Some _ \<Rightarrow> p\<lparr>raw_ptr := Some b\<rparr>)"

text \<open>
  \<^verbatim>\<open>operator[](size_t index)\<close> returns \<^verbatim>\<open>raw_ptr_[index]\<close>, a reference. Reading through
  it gives the slot, writing through it replaces the slot; both are undefined outside
  the array.
\<close>

definition ArrayPtr_index :: "'a block ArrayPtr \<Rightarrow> nat \<Rightarrow> error + 'a slot" where
  "ArrayPtr_index p index =
     (if index < length (cells p) then Inr (cells p ! index) else Inl UndefinedBehaviour)"

definition ArrayPtr_assign :: "'a block ArrayPtr \<Rightarrow> nat \<Rightarrow> 'a \<Rightarrow> error + 'a block ArrayPtr" where
  "ArrayPtr_assign p index x =
     (if index < length (cells p) then Inr (with_cells p ((cells p)[index := Some x]))
      else Inl UndefinedBehaviour)"

section \<open>The algorithms of the standard library used by the vector\<close>

text \<open>
  The vector calls \<^verbatim>\<open>std::fill\<close>, \<^verbatim>\<open>std::generate\<close>, \<^verbatim>\<open>std::copy\<close>, \<^verbatim>\<open>std::move\<close>,
  \<^verbatim>\<open>std::copy_backward\<close> and \<^verbatim>\<open>std::move_backward\<close> on ranges of its arrays. A range
  \<^verbatim>\<open>[p.Get() + first, p.Get() + last)\<close> is given by the pointer \<open>p\<close> and the two
  offsets \<open>first\<close> and \<open>lst\<close>. Each algorithm has its effect from the C++ standard; a range that is reversed
  or that leaves its array is undefined behaviour, an empty range inside the array
  touches nothing (also when the pointer is null and both offsets are 0).
\<close>

definition std_fill ::
  "'a block ArrayPtr \<Rightarrow> nat \<Rightarrow> nat \<Rightarrow> 'a \<Rightarrow> error + 'a block ArrayPtr" where
  "std_fill p first lst val =
     (if first \<le> lst \<and> lst \<le> length (cells p)
      then Inr (with_cells p
             (take first (cells p) @ replicate (lst - first) (Some val) @ drop lst (cells p)))
      else Inl UndefinedBehaviour)"

text \<open>\<^verbatim>\<open>std::generate\<close> stores one call of the generator in every slot of the range.\<close>

definition std_generate ::
  "'a block ArrayPtr \<Rightarrow> nat \<Rightarrow> nat \<Rightarrow> (unit \<Rightarrow> 'a) \<Rightarrow> error + 'a block ArrayPtr" where
  "std_generate p first lst gen =
     (if first \<le> lst \<and> lst \<le> length (cells p)
      then Inr (with_cells p
             (take first (cells p) @ replicate (lst - first) (Some (gen ())) @ drop lst (cells p)))
      else Inl UndefinedBehaviour)"

text \<open>
  \<^verbatim>\<open>std::copy(src + first, src + last, dst + d_first)\<close> from one array into another.
\<close>

definition std_copy ::
  "'a block ArrayPtr \<Rightarrow> nat \<Rightarrow> nat \<Rightarrow> 'a block ArrayPtr \<Rightarrow> nat \<Rightarrow> error + 'a block ArrayPtr" where
  "std_copy src first lst dst d_first =
     (if first \<le> lst \<and> lst \<le> length (cells src)
         \<and> d_first + (lst - first) \<le> length (cells dst)
      then Inr (with_cells dst
             (take d_first (cells dst) @ take (lst - first) (drop first (cells src))
              @ drop (d_first + (lst - first)) (cells dst)))
      else Inl UndefinedBehaviour)"

definition std_move ::
  "'a block ArrayPtr \<Rightarrow> nat \<Rightarrow> nat \<Rightarrow> 'a block ArrayPtr \<Rightarrow> nat \<Rightarrow> error + 'a block ArrayPtr" where
  "std_move src first lst dst d_first = std_copy src first lst dst d_first"

text \<open>
  \<^verbatim>\<open>std::copy(init.begin(), init.end(), dst)\<close> from an initializer list, whose
  elements are all values.
\<close>

definition std_copy_list :: "'a list \<Rightarrow> 'a block ArrayPtr \<Rightarrow> error + 'a block ArrayPtr" where
  "std_copy_list init dst =
     (if length init \<le> length (cells dst)
      then Inr (with_cells dst (map Some init @ drop (length init) (cells dst)))
      else Inl UndefinedBehaviour)"

text \<open>
  \<^verbatim>\<open>std::copy_backward(p + first, p + last, p + d_last)\<close> inside one array: the range
  is copied so that it ends at \<open>d_last\<close>, last element first, which is safe when the
  destination lies to the right of the source.
\<close>

definition std_copy_backward ::
  "'a block ArrayPtr \<Rightarrow> nat \<Rightarrow> nat \<Rightarrow> nat \<Rightarrow> error + 'a block ArrayPtr" where
  "std_copy_backward p first lst d_last =
     (if first \<le> lst \<and> lst \<le> length (cells p)
         \<and> lst - first \<le> d_last \<and> d_last \<le> length (cells p)
      then Inr (with_cells p
             (take (d_last - (lst - first)) (cells p) @ take (lst - first) (drop first (cells p))
              @ drop d_last (cells p)))
      else Inl UndefinedBehaviour)"

definition std_move_backward ::
  "'a block ArrayPtr \<Rightarrow> nat \<Rightarrow> nat \<Rightarrow> nat \<Rightarrow> error + 'a block ArrayPtr" where
  "std_move_backward p first lst d_last = std_copy_backward p first lst d_last"

text \<open>
  The slots of a range that is read: undefined when the range is reversed or leaves the
  array.
\<close>

definition slots_of :: "'a block ArrayPtr \<Rightarrow> nat \<Rightarrow> nat \<Rightarrow> error + 'a slot list" where
  "slots_of p first lst =
     (if first \<le> lst \<and> lst \<le> length (cells p)
      then Inr (take (lst - first) (drop first (cells p)))
      else Inl UndefinedBehaviour)"

text \<open>
  \<^verbatim>\<open>std::equal(first1, last1, first2)\<close>: the loop
  \<^verbatim>\<open>for (; first1 != last1; ++first1, ++first2) if (!(*first1 == *first2)) return false;\<close>
  \<^verbatim>\<open>return true;\<close> over the slots of the first range and the slots from \<open>first2\<close> to
  the end of the second array. Comparing a slot that was never written, or running off
  the second array, is undefined. The element type's \<^verbatim>\<open>operator==\<close> is the parameter
  \<open>eq\<close>.
\<close>

fun std_equal :: "('a \<Rightarrow> 'a \<Rightarrow> bool) \<Rightarrow> 'a slot list \<Rightarrow> 'a slot list \<Rightarrow> error + bool" where
  "std_equal eq [] ys = Inr True"
| "std_equal eq (x # xs) [] = Inl UndefinedBehaviour"
| "std_equal eq (Some x # xs) (Some y # ys) =
     (if \<not> eq x y then Inr False else std_equal eq xs ys)"
| "std_equal eq (x # xs) (y # ys) = Inl UndefinedBehaviour"

text \<open>
  \<^verbatim>\<open>std::lexicographical_compare(first1, last1, first2, last2)\<close>: the loop
  \<^verbatim>\<open>for (; first1 != last1 && first2 != last2; ++first1, ++first2) {\<close>
  \<^verbatim>\<open>if (*first1 < *first2) return true; if (*first2 < *first1) return false; }\<close>
  \<^verbatim>\<open>return first1 == last1 && first2 != last2;\<close>
  over the slots of the two ranges. The element type's \<^verbatim>\<open>operator<\<close> is the parameter
  \<open>lt\<close>.
\<close>

fun std_lexicographical_compare ::
  "('a \<Rightarrow> 'a \<Rightarrow> bool) \<Rightarrow> 'a slot list \<Rightarrow> 'a slot list \<Rightarrow> error + bool" where
  "std_lexicographical_compare lt (Some x # xs) (Some y # ys) =
     (if lt x y then Inr True else if lt y x then Inr False
      else std_lexicographical_compare lt xs ys)"
| "std_lexicographical_compare lt (x # xs) (y # ys) = Inl UndefinedBehaviour"
| "std_lexicographical_compare lt xs ys = Inr (xs = [] \<and> ys \<noteq> [])"

section \<open>The growable array: \<^verbatim>\<open>SimpleVector\<close>\<close>

record ReserveProxyObj =
  capacity :: size_t

text \<open>The free function \<^verbatim>\<open>Reserve(size_t capacity_to_reserve)\<close>.\<close>

definition Reserve_proxy :: "size_t \<Rightarrow> ReserveProxyObj" where
  "Reserve_proxy capacity_to_reserve = \<lparr>capacity = capacity_to_reserve\<rparr>"

record 'a SimpleVector =
  size_m :: size_t
  capacity_m :: size_t
  data_m :: "'a block ArrayPtr"

text \<open>The member initialisers: \<^verbatim>\<open>size_ = 0\<close>, \<^verbatim>\<open>capacity_ = 0\<close>, a null \<^verbatim>\<open>data_\<close>.\<close>

definition SimpleVector_default :: "'a SimpleVector" where
  "SimpleVector_default = \<lparr>size_m = 0, capacity_m = 0, data_m = ArrayPtr_default\<rparr>"

declare SimpleVector_default_def [code_unfold]

definition GetSize :: "'a SimpleVector \<Rightarrow> size_t" where
  "GetSize v = size_m v"

definition GetCapacity :: "'a SimpleVector \<Rightarrow> size_t" where
  "GetCapacity v = capacity_m v"

definition IsEmpty :: "'a SimpleVector \<Rightarrow> bool" where
  "IsEmpty v = (size_m v = 0)"

text \<open>\<^verbatim>\<open>begin()\<close> is \<^verbatim>\<open>data_.Get()\<close>, \<^verbatim>\<open>end()\<close> is \<^verbatim>\<open>data_.Get() + size_\<close>.\<close>

definition begin_it :: "'a SimpleVector \<Rightarrow> nat" where
  "begin_it v = 0"

definition end_it :: "'a SimpleVector \<Rightarrow> nat" where
  "end_it v = unat (size_m v)"

text \<open>\<^verbatim>\<open>operator[](size_t index)\<close>: \<^verbatim>\<open>data_[index]\<close>, unchecked.\<close>

definition index_op :: "'a SimpleVector \<Rightarrow> size_t \<Rightarrow> error + 'a slot" where
  "index_op v index = ArrayPtr_index (data_m v) (unat index)"

text \<open>
  \<^verbatim>\<open>At(size_t index)\<close>: throws when \<^verbatim>\<open>index >= size_\<close>, else \<^verbatim>\<open>data_[index]\<close>. The
  vector after the call is the second component of the result.
\<close>

definition At :: "'a SimpleVector \<Rightarrow> size_t \<Rightarrow> (error + 'a slot) \<times> 'a SimpleVector" where
  "At v index =
     (if index \<ge> size_m v then (Inl OutOfRange, v)
      else (ArrayPtr_index (data_m v) (unat index), v))"

definition Clear :: "'a SimpleVector \<Rightarrow> 'a SimpleVector" where
  "Clear v = v\<lparr>size_m := 0\<rparr>"

text \<open>\<^verbatim>\<open>PopBack()\<close> is \<^verbatim>\<open>--size_\<close>, which wraps at 0.\<close>

definition PopBack :: "'a SimpleVector \<Rightarrow> 'a SimpleVector" where
  "PopBack v = v\<lparr>size_m := size_m v - 1\<rparr>"

text \<open>\<^verbatim>\<open>swap(SimpleVector& other)\<close>: the pair (\<open>this\<close>, \<open>other\<close>) afterwards.\<close>

definition swap_vec :: "'a SimpleVector \<Rightarrow> 'a SimpleVector \<Rightarrow> 'a SimpleVector \<times> 'a SimpleVector" where
  "swap_vec this other =
     (let (d, od) = ArrayPtr_swap (data_m this) (data_m other)
      in (this\<lparr>data_m := d, size_m := size_m other, capacity_m := capacity_m other\<rparr>,
          other\<lparr>data_m := od, size_m := size_m this, capacity_m := capacity_m this\<rparr>))"

text \<open>
  \<^verbatim>\<open>Resize(size_t new_size)\<close>. The generator is \<^verbatim>\<open>[]() { return Type(); }\<close>. After
  \<^verbatim>\<open>data_.swap(temp)\<close> the old array is in \<open>temp\<close> and dies with it.
\<close>

definition Resize :: "'a \<Rightarrow> size_t \<Rightarrow> 'a SimpleVector \<Rightarrow> error + 'a SimpleVector" where
  "Resize dflt new_size v =
     and_then
       (if new_size > capacity_m v then
          (let temp = ArrayPtr_new new_size in
           and_then (std_generate temp 0 (unat new_size) (\<lambda>_. dflt)) (\<lambda>temp.
           and_then (std_move (data_m v) 0 (unat (size_m v)) temp 0) (\<lambda>temp.
           let (d, temp) = ArrayPtr_swap (data_m v) temp
           in Inr (v\<lparr>data_m := d, capacity_m := new_size\<rparr>))))
        else Inr v)
       (\<lambda>v. and_then
          (if new_size > size_m v then
             and_then (std_generate (data_m v) (unat (size_m v)) (unat new_size) (\<lambda>_. dflt))
               (\<lambda>d. Inr (v\<lparr>data_m := d\<rparr>))
           else Inr v)
          (\<lambda>v. Inr (v\<lparr>size_m := new_size\<rparr>)))"

text \<open>
  An element argument. \<open>Value x\<close> refers to an object outside the vector's buffer that
  holds \<open>x\<close> (a temporary, a variable of the caller). \<open>Own i\<close> refers to the slot at offset
  \<open>i\<close> of the array that \<^verbatim>\<open>data_\<close> points to when the call starts.
\<close>

datatype 'a arg = Value 'a | Own nat

text \<open>
  Reading the reference. \<open>old_array\<close> is the present content of the array that \<^verbatim>\<open>data_\<close>
  pointed to when the call started, or \<open>None\<close> once that array has been freed: then
  reading a reference into it is undefined. So is reading a slot outside that array, or
  one that was never written.
\<close>

definition read_arg :: "'a arg \<Rightarrow> 'a slot list option \<Rightarrow> error + 'a" where
  "read_arg element old_array =
     (case element of
        Value x \<Rightarrow> Inr x
      | Own i \<Rightarrow>
          (case old_array of
             None \<Rightarrow> Inl UndefinedBehaviour
           | Some b \<Rightarrow>
               if i < length b then
                 (case b ! i of None \<Rightarrow> Inl UndefinedBehaviour | Some x \<Rightarrow> Inr x)
               else Inl UndefinedBehaviour))"

text \<open>
  \<^verbatim>\<open>PushBack(const Type& element)\<close>. In the growth block \<^verbatim>\<open>data_.swap(temp)\<close> puts the
  old array into \<open>temp\<close>, and the destructor of \<open>temp\<close> frees it where the block ends.
  The statement \<^verbatim>\<open>data_[size_] = element\<close> comes after the block: it reads \<open>element\<close> when
  the old array is gone if the vector has grown, and when it is still the array of
  \<^verbatim>\<open>data_\<close> otherwise. The first stage returns the vector together with the old array
  as the reference finds it.
\<close>

definition PushBack :: "'a \<Rightarrow> 'a arg \<Rightarrow> 'a SimpleVector \<Rightarrow> error + 'a SimpleVector" where
  "PushBack dflt element v =
     and_then
       (if size_m v \<ge> capacity_m v then
          (let increased_capacity = (if capacity_m v = 0 then 1 else capacity_m v * 2);
               temp = ArrayPtr_new increased_capacity in
           and_then (std_fill temp 0 (unat increased_capacity) dflt) (\<lambda>temp.
           and_then (std_copy (data_m v) 0 (unat (size_m v)) temp 0) (\<lambda>temp.
           let (d, temp) = ArrayPtr_swap (data_m v) temp
           in Inr (v\<lparr>data_m := d, capacity_m := increased_capacity\<rparr>, None))))
        else Inr (v, Some (cells (data_m v))))
       (\<lambda>(v, old_array).
          and_then (read_arg element old_array) (\<lambda>x.
          and_then (ArrayPtr_assign (data_m v) (unat (size_m v)) x)
            (\<lambda>d. Inr (v\<lparr>data_m := d, size_m := size_m v + 1\<rparr>))))"

text \<open>
  \<^verbatim>\<open>PushBack(Type&& element)\<close>, the overload chosen for a temporary and for
  \<^verbatim>\<open>std::move(...)\<close>; \<^verbatim>\<open>data_[size_] = std::move(element)\<close> reads \<open>element\<close> at the same
  place.
\<close>

definition PushBack_rv :: "'a \<Rightarrow> 'a arg \<Rightarrow> 'a SimpleVector \<Rightarrow> error + 'a SimpleVector" where
  "PushBack_rv dflt element v =
     and_then
       (if size_m v \<ge> capacity_m v then
          (let increased_capacity = (if capacity_m v = 0 then 1 else capacity_m v * 2);
               temp = ArrayPtr_new increased_capacity in
           and_then (std_generate temp 0 (unat increased_capacity) (\<lambda>_. dflt)) (\<lambda>temp.
           and_then (std_move (data_m v) 0 (unat (size_m v)) temp 0) (\<lambda>temp.
           let (d, temp) = ArrayPtr_swap (data_m v) temp
           in Inr (v\<lparr>data_m := d, capacity_m := increased_capacity\<rparr>, None))))
        else Inr (v, Some (cells (data_m v))))
       (\<lambda>(v, old_array).
          and_then (read_arg element old_array) (\<lambda>x.
          and_then (ArrayPtr_assign (data_m v) (unat (size_m v)) x)
            (\<lambda>d. Inr (v\<lparr>data_m := d, size_m := size_m v + 1\<rparr>))))"

text \<open>
  \<^verbatim>\<open>Reserve(size_t reserved_capacity)\<close>. The fill runs over the first \<^verbatim>\<open>capacity_\<close>
  slots of the new array, with the capacity before the call.
\<close>

definition Reserve :: "'a \<Rightarrow> size_t \<Rightarrow> 'a SimpleVector \<Rightarrow> error + 'a SimpleVector" where
  "Reserve dflt reserved_capacity v =
     (if reserved_capacity \<le> capacity_m v then Inr v
      else
        (let new_data = ArrayPtr_new reserved_capacity in
         and_then (std_fill new_data 0 (unat (capacity_m v)) dflt) (\<lambda>new_data.
         and_then (std_copy (data_m v) 0 (unat (size_m v)) new_data 0) (\<lambda>new_data.
         let (d, new_data) = ArrayPtr_swap (data_m v) new_data
         in Inr (v\<lparr>data_m := d, capacity_m := reserved_capacity\<rparr>)))))"

text \<open>
  The loop of \<^verbatim>\<open>Erase\<close>:
  \<^verbatim>\<open>for (auto begin = pos; begin != end() - 1; ++begin) *begin = std::move(*(begin + 1));\<close>
  on the slots of \<^verbatim>\<open>data_\<close>, with \<open>it\<close> for \<^verbatim>\<open>begin\<close> and \<open>stop\<close> for \<^verbatim>\<open>end() - 1\<close>.
  The loop ends when \<open>it\<close> meets \<open>stop\<close>; an iterator that started behind \<open>stop\<close>
  runs on until \<^verbatim>\<open>*(begin + 1)\<close> leaves the array.
\<close>

function Erase_loop :: "'a slot list \<Rightarrow> nat \<Rightarrow> nat \<Rightarrow> error + 'a slot list" where
  "Erase_loop b it stop =
     (if it = stop then Inr b
      else if it + 1 < length b then Erase_loop (b[it := b ! (it + 1)]) (it + 1) stop
      else Inl UndefinedBehaviour)"
  by pat_completeness auto
termination
  by (relation "measure (\<lambda>(b, it, stop). length b - it)") auto

text \<open>
  \<^verbatim>\<open>Erase(Iterator pos)\<close>. With \<^verbatim>\<open>size_ == 0\<close> the bound \<^verbatim>\<open>end() - 1\<close> lies before the
  array, which is undefined. The result is the vector and the returned iterator.
\<close>

definition Erase :: "nat \<Rightarrow> 'a SimpleVector \<Rightarrow> error + ('a SimpleVector \<times> nat)" where
  "Erase pos v =
     (let removing_index = pos in
      if size_m v = 0 then Inl UndefinedBehaviour
      else
        and_then (Erase_loop (cells (data_m v)) pos (end_it v - 1)) (\<lambda>b.
        let v = v\<lparr>data_m := with_cells (data_m v) b\<rparr>;
            v = v\<lparr>size_m := size_m v - 1\<rparr>
        in Inr (v, removing_index)))"

text \<open>
  \<^verbatim>\<open>Insert(Iterator pos, const Type& element)\<close>: the vector and the returned iterator.
  In the growth block \<^verbatim>\<open>temp[inserting_index] = element\<close> reads \<open>element\<close> while the old
  array is alive and unchanged. In the other branch \<^verbatim>\<open>data_[inserting_index] = element\<close>
  reads it after \<^verbatim>\<open>std::copy_backward\<close> has shifted the slots of the same array.
\<close>

definition Insert ::
  "'a \<Rightarrow> nat \<Rightarrow> 'a arg \<Rightarrow> 'a SimpleVector \<Rightarrow> error + ('a SimpleVector \<times> nat)" where
  "Insert dflt pos element v =
     (let inserting_index = pos in
      and_then
        (if size_m v \<ge> capacity_m v then
           (let increased_capacity = (if capacity_m v = 0 then 1 else capacity_m v * 2);
                temp = ArrayPtr_new increased_capacity in
            and_then (std_fill temp 0 (unat increased_capacity) dflt) (\<lambda>temp.
            and_then (std_copy (data_m v) 0 pos temp 0) (\<lambda>temp.
            and_then (read_arg element (Some (cells (data_m v)))) (\<lambda>x.
            and_then (ArrayPtr_assign temp inserting_index x) (\<lambda>temp.
            and_then (std_copy (data_m v) pos (unat (size_m v)) temp (inserting_index + 1))
              (\<lambda>temp.
            let (d, temp) = ArrayPtr_swap (data_m v) temp
            in Inr (v\<lparr>data_m := d, capacity_m := increased_capacity\<rparr>)))))))
         else
           and_then (std_copy_backward (data_m v) pos (unat (size_m v)) (unat (size_m v) + 1))
             (\<lambda>d.
           and_then (read_arg element (Some (cells d))) (\<lambda>x.
           and_then (ArrayPtr_assign d inserting_index x) (\<lambda>d.
           Inr (v\<lparr>data_m := d\<rparr>)))))
        (\<lambda>v. Inr (v\<lparr>size_m := size_m v + 1\<rparr>, inserting_index)))"

text \<open>\<^verbatim>\<open>Insert(Iterator pos, Type&& element)\<close>, with the reads at the same places.\<close>

definition Insert_rv ::
  "'a \<Rightarrow> nat \<Rightarrow> 'a arg \<Rightarrow> 'a SimpleVector \<Rightarrow> error + ('a SimpleVector \<times> nat)" where
  "Insert_rv dflt pos element v =
     (let inserting_index = pos in
      and_then
        (if size_m v \<ge> capacity_m v then
           (let increased_capacity = (if capacity_m v = 0 then 1 else capacity_m v * 2);
                temp = ArrayPtr_new increased_capacity in
            and_then (std_generate temp 0 (unat increased_capacity) (\<lambda>_. dflt)) (\<lambda>temp.
            and_then (std_move (data_m v) 0 pos temp 0) (\<lambda>temp.
            and_then (read_arg element (Some (cells (data_m v)))) (\<lambda>x.
            and_then (ArrayPtr_assign temp inserting_index x) (\<lambda>temp.
            and_then (std_move (data_m v) pos (unat (size_m v)) temp (inserting_index + 1))
              (\<lambda>temp.
            let (d, temp) = ArrayPtr_swap (data_m v) temp
            in Inr (v\<lparr>data_m := d, capacity_m := increased_capacity\<rparr>)))))))
         else
           and_then (std_move_backward (data_m v) pos (unat (size_m v)) (unat (size_m v) + 1))
             (\<lambda>d.
           and_then (read_arg element (Some (cells d))) (\<lambda>x.
           and_then (ArrayPtr_assign d inserting_index x) (\<lambda>d.
           Inr (v\<lparr>data_m := d\<rparr>)))))
        (\<lambda>v. Inr (v\<lparr>size_m := size_m v + 1\<rparr>, inserting_index)))"

subsection \<open>Constructors\<close>

text \<open>\<^verbatim>\<open>explicit SimpleVector(size_t size)\<close>.\<close>

definition SimpleVector_count :: "'a \<Rightarrow> size_t \<Rightarrow> error + 'a SimpleVector" where
  "SimpleVector_count dflt sz =
     (let v = \<lparr>size_m = sz, capacity_m = sz, data_m = ArrayPtr_new sz\<rparr> in
      and_then (std_fill (data_m v) 0 (unat (size_m v)) dflt) (\<lambda>d. Inr (v\<lparr>data_m := d\<rparr>)))"

text \<open>
  \<^verbatim>\<open>SimpleVector(ReserveProxyObj obj)\<close>: the members start from their initialisers,
  then \<^verbatim>\<open>capacity_ = obj.capacity; Reserve(capacity_);\<close> where \<^verbatim>\<open>Reserve\<close> is the member
  function.
\<close>

definition SimpleVector_reserve :: "'a \<Rightarrow> ReserveProxyObj \<Rightarrow> error + 'a SimpleVector" where
  "SimpleVector_reserve dflt obj =
     (let v = SimpleVector_default;
          v = v\<lparr>capacity_m := capacity obj\<rparr>
      in Reserve dflt (capacity_m v) v)"

text \<open>\<^verbatim>\<open>SimpleVector(size_t size, const Type& value)\<close>.\<close>

definition SimpleVector_value :: "size_t \<Rightarrow> 'a \<Rightarrow> error + 'a SimpleVector" where
  "SimpleVector_value sz val =
     (let v = \<lparr>size_m = sz, capacity_m = sz, data_m = ArrayPtr_new sz\<rparr> in
      and_then (std_fill (data_m v) 0 (unat (size_m v)) val) (\<lambda>d. Inr (v\<lparr>data_m := d\<rparr>)))"

text \<open>\<^verbatim>\<open>SimpleVector(std::initializer_list<Type> init)\<close>; \<^verbatim>\<open>init.size()\<close> is a \<^verbatim>\<open>size_t\<close>.\<close>

definition SimpleVector_init :: "'a list \<Rightarrow> error + 'a SimpleVector" where
  "SimpleVector_init init =
     (let n = (word_of_nat (length init) :: size_t);
          v = \<lparr>size_m = n, capacity_m = n, data_m = ArrayPtr_new n\<rparr> in
      and_then (std_copy_list init (data_m v)) (\<lambda>d. Inr (v\<lparr>data_m := d\<rparr>)))"

text \<open>
  \<^verbatim>\<open>SimpleVector(SimpleVector<Type>& other)\<close>: a temporary of \<^verbatim>\<open>other\<close>'s size is filled
  from \<^verbatim>\<open>other\<close> and swapped into the new, default-initialised object.
\<close>

definition SimpleVector_copy :: "'a \<Rightarrow> 'a SimpleVector \<Rightarrow> error + 'a SimpleVector" where
  "SimpleVector_copy dflt other =
     (let capacity = (word_of_nat (end_it other - begin_it other) :: size_t) in
      and_then (SimpleVector_count dflt capacity) (\<lambda>temp.
      and_then (std_copy (data_m other) (begin_it other) (end_it other) (data_m temp) (begin_it temp))
        (\<lambda>d.
      let temp = temp\<lparr>data_m := d\<rparr>;
          (this, temp) = swap_vec SimpleVector_default temp
      in Inr this)))"

text \<open>
  \<^verbatim>\<open>SimpleVector(SimpleVector&& other)\<close>: the pair (new object, \<open>other\<close> afterwards).
\<close>

definition SimpleVector_move :: "'a SimpleVector \<Rightarrow> 'a SimpleVector \<times> 'a SimpleVector" where
  "SimpleVector_move other =
     (let (d, od) = ArrayPtr_move (data_m other)
      in (\<lparr>size_m = size_m other, capacity_m = capacity_m other, data_m = d\<rparr>,
          other\<lparr>size_m := 0, capacity_m := 0, data_m := od\<rparr>))"

subsection \<open>Comparison operators\<close>

text \<open>
  \<^verbatim>\<open>operator==\<close>: \<^verbatim>\<open>lhs.GetSize() == rhs.GetSize() && std::equal(lhs.begin(), lhs.end(),\<close>
  \<^verbatim>\<open>rhs.begin())\<close>; the second operand of \<^verbatim>\<open>&&\<close> runs only when the sizes agree.
\<close>

definition op_eq :: "('a \<Rightarrow> 'a \<Rightarrow> bool) \<Rightarrow> 'a SimpleVector \<Rightarrow> 'a SimpleVector \<Rightarrow> error + bool" where
  "op_eq eq lhs rhs =
     (if GetSize lhs = GetSize rhs then
        and_then (slots_of (data_m lhs) (begin_it lhs) (end_it lhs)) (\<lambda>xs.
        std_equal eq xs (drop (begin_it rhs) (cells (data_m rhs))))
      else Inr False)"

definition op_ne :: "('a \<Rightarrow> 'a \<Rightarrow> bool) \<Rightarrow> 'a SimpleVector \<Rightarrow> 'a SimpleVector \<Rightarrow> error + bool" where
  "op_ne eq lhs rhs = and_then (op_eq eq lhs rhs) (\<lambda>b. Inr (\<not> b))"

definition op_lt :: "('a \<Rightarrow> 'a \<Rightarrow> bool) \<Rightarrow> 'a SimpleVector \<Rightarrow> 'a SimpleVector \<Rightarrow> error + bool" where
  "op_lt lt lhs rhs =
     and_then (slots_of (data_m lhs) (begin_it lhs) (end_it lhs)) (\<lambda>xs.
     and_then (slots_of (data_m rhs) (begin_it rhs) (end_it rhs)) (\<lambda>ys.
     std_lexicographical_compare lt xs ys))"

text \<open>\<^verbatim>\<open>lhs < rhs || lhs == rhs\<close>: the equality runs only when the first test is false.\<close>

definition op_le ::
  "('a \<Rightarrow> 'a \<Rightarrow> bool) \<Rightarrow> ('a \<Rightarrow> 'a \<Rightarrow> bool) \<Rightarrow> 'a SimpleVector \<Rightarrow> 'a SimpleVector \<Rightarrow> error + bool" where
  "op_le eq lt lhs rhs =
     and_then (op_lt lt lhs rhs) (\<lambda>b. if b then Inr True else op_eq eq lhs rhs)"

definition op_gt :: "('a \<Rightarrow> 'a \<Rightarrow> bool) \<Rightarrow> 'a SimpleVector \<Rightarrow> 'a SimpleVector \<Rightarrow> error + bool" where
  "op_gt lt lhs rhs = op_lt lt rhs lhs"

text \<open>\<^verbatim>\<open>(rhs < lhs) || (rhs == lhs)\<close>.\<close>

definition op_ge ::
  "('a \<Rightarrow> 'a \<Rightarrow> bool) \<Rightarrow> ('a \<Rightarrow> 'a \<Rightarrow> bool) \<Rightarrow> 'a SimpleVector \<Rightarrow> 'a SimpleVector \<Rightarrow> error + bool" where
  "op_ge eq lt lhs rhs =
     and_then (op_lt lt rhs lhs) (\<lambda>b. if b then Inr True else op_eq eq rhs lhs)"

section \<open>Abstraction and well-formedness\<close>

text \<open>The live elements: the slots at the indices below the size.\<close>

definition elems :: "'a SimpleVector \<Rightarrow> 'a slot list" where
  "elems v = take (unat (size_m v)) (cells (data_m v))"

text \<open>
  The data model of the growable array: the size is at most the capacity, and the
  buffer has exactly as many slots as the capacity says.
\<close>

definition well_formed :: "'a SimpleVector \<Rightarrow> bool" where
  "well_formed v = (size_m v \<le> capacity_m v \<and> length (cells (data_m v)) = unat (capacity_m v))"

text \<open>Two buffers at the addresses 0 and 1, and some vectors, used as concrete inputs.\<close>

definition two_buffers :: "nat objects" where
  "two_buffers = (\<lambda>i. if i = 0 then \<lparr>raw_ptr = Some 10\<rparr> else \<lparr>raw_ptr = Some 20\<rparr>)"

definition vec123 :: "int SimpleVector" where
  "vec123 = \<lparr>size_m = 3, capacity_m = 3, data_m = \<lparr>raw_ptr = Some [Some 1, Some 2, Some 3]\<rparr>\<rparr>"

definition vec12_cap4 :: "int SimpleVector" where
  "vec12_cap4 =
     \<lparr>size_m = 2, capacity_m = 4, data_m = \<lparr>raw_ptr = Some [Some 1, Some 2, None, None]\<rparr>\<rparr>"

definition vec1234 :: "int SimpleVector" where
  "vec1234 = \<lparr>size_m = 4, capacity_m = 6,
     data_m = \<lparr>raw_ptr = Some [Some 1, Some 2, Some 3, Some 4, Some 0, Some 0]\<rparr>\<rparr>"

definition vec134 :: "int SimpleVector" where
  "vec134 = \<lparr>size_m = 3, capacity_m = 6,
     data_m = \<lparr>raw_ptr = Some [Some 1, Some 3, Some 4, Some 4, Some 0, Some 0]\<rparr>\<rparr>"

definition vec0134 :: "int SimpleVector" where
  "vec0134 = \<lparr>size_m = 4, capacity_m = 6,
     data_m = \<lparr>raw_ptr = Some [Some 0, Some 1, Some 3, Some 4, Some 0, Some 0]\<rparr>\<rparr>"

definition vec123_cap4 :: "int SimpleVector" where
  "vec123_cap4 = \<lparr>size_m = 3, capacity_m = 4,
     data_m = \<lparr>raw_ptr = Some [Some 1, Some 2, Some 3, None]\<rparr>\<rparr>"

definition vec2123 :: "int SimpleVector" where
  "vec2123 = \<lparr>size_m = 4, capacity_m = 4,
     data_m = \<lparr>raw_ptr = Some [Some 2, Some 1, Some 2, Some 3]\<rparr>\<rparr>"

definition vec1231 :: "int SimpleVector" where
  "vec1231 = \<lparr>size_m = 4, capacity_m = 6,
     data_m = \<lparr>raw_ptr = Some [Some 1, Some 2, Some 3, Some 1, Some 0, Some 0]\<rparr>\<rparr>"

definition reserved5 :: "int SimpleVector" where
  "reserved5 = \<lparr>size_m = 0, capacity_m = 5, data_m = \<lparr>raw_ptr = None\<rparr>\<rparr>"

section \<open>Specifications that the claims refer to\<close>

text \<open>
  The vectors that a program can build: every constructor, and every operation that
  returns normally from a vector already built. \<^verbatim>\<open>PopBack\<close> is taken only on a
  non-empty vector, \<^verbatim>\<open>Insert\<close> only at a position from \<^verbatim>\<open>begin()\<close> to \<^verbatim>\<open>end()\<close>,
  \<^verbatim>\<open>Erase\<close> only at a position from \<^verbatim>\<open>begin()\<close> to before \<^verbatim>\<open>end()\<close>. Moving and swapping
  leave two vectors behind, and both are counted.
\<close>

inductive reachable :: "'a \<Rightarrow> 'a SimpleVector \<Rightarrow> bool" for dflt :: 'a where
  by_default: "reachable dflt SimpleVector_default"
| by_count: "SimpleVector_count dflt n = Inr v \<Longrightarrow> reachable dflt v"
| by_value: "SimpleVector_value n val = Inr v \<Longrightarrow> reachable dflt v"
| by_init: "SimpleVector_init init = Inr v \<Longrightarrow> reachable dflt v"
| by_reserve: "SimpleVector_reserve dflt obj = Inr v \<Longrightarrow> reachable dflt v"
| by_copy: "reachable dflt w \<Longrightarrow> SimpleVector_copy dflt w = Inr v \<Longrightarrow> reachable dflt v"
| by_move: "reachable dflt w \<Longrightarrow> reachable dflt (fst (SimpleVector_move w))"
| moved_from: "reachable dflt w \<Longrightarrow> reachable dflt (snd (SimpleVector_move w))"
| after_PushBack: "reachable dflt w \<Longrightarrow> PushBack dflt x w = Inr v \<Longrightarrow> reachable dflt v"
| after_PushBack_rv: "reachable dflt w \<Longrightarrow> PushBack_rv dflt x w = Inr v \<Longrightarrow> reachable dflt v"
| after_PopBack: "reachable dflt w \<Longrightarrow> GetSize w > 0 \<Longrightarrow> reachable dflt (PopBack w)"
| after_Insert:
    "reachable dflt w \<Longrightarrow> begin_it w \<le> pos \<Longrightarrow> pos \<le> end_it w \<Longrightarrow>
     Insert dflt pos x w = Inr (v, it) \<Longrightarrow> reachable dflt v"
| after_Insert_rv:
    "reachable dflt w \<Longrightarrow> begin_it w \<le> pos \<Longrightarrow> pos \<le> end_it w \<Longrightarrow>
     Insert_rv dflt pos x w = Inr (v, it) \<Longrightarrow> reachable dflt v"
| after_Erase:
    "reachable dflt w \<Longrightarrow> begin_it w \<le> pos \<Longrightarrow> pos < end_it w \<Longrightarrow>
     Erase pos w = Inr (v, it) \<Longrightarrow> reachable dflt v"
| after_Resize: "reachable dflt w \<Longrightarrow> Resize dflt n w = Inr v \<Longrightarrow> reachable dflt v"
| after_Reserve: "reachable dflt w \<Longrightarrow> Reserve dflt n w = Inr v \<Longrightarrow> reachable dflt v"
| after_Clear: "reachable dflt w \<Longrightarrow> reachable dflt (Clear w)"
| after_swap: "reachable dflt w \<Longrightarrow> reachable dflt u \<Longrightarrow> reachable dflt (fst (swap_vec w u))"
| swapped: "reachable dflt w \<Longrightarrow> reachable dflt u \<Longrightarrow> reachable dflt (snd (swap_vec w u))"

text \<open>
  The ordering of the comparison claim, in the words of the specification: \<open>xs\<close> is
  lexicographically less than \<open>ys\<close> when there is a position \<open>k\<close> inside \<open>ys\<close>, no
  earlier position holds a pair of which one element is less than the other, and at \<open>k\<close>
  either \<open>xs\<close> has ended or its element is less than that of \<open>ys\<close>.
\<close>

definition lexicographic_less :: "('a \<Rightarrow> 'a \<Rightarrow> bool) \<Rightarrow> 'a list \<Rightarrow> 'a list \<Rightarrow> bool" where
  "lexicographic_less lt xs ys =
     (\<exists>k \<in> {..length xs}. k < length ys
        \<and> (\<forall>i \<in> {..<k}. \<not> lt (xs ! i) (ys ! i) \<and> \<not> lt (ys ! i) (xs ! i))
        \<and> (k = length xs \<or> lt (xs ! k) (ys ! k)))"

text \<open>All corresponding elements compare equal, in order.\<close>

definition all_equal :: "('a \<Rightarrow> 'a \<Rightarrow> bool) \<Rightarrow> 'a list \<Rightarrow> 'a list \<Rightarrow> bool" where
  "all_equal eq xs ys = (\<forall>i \<in> {..<length xs}. eq (xs ! i) (ys ! i))"

text \<open>
  An empty vector without a buffer. With a capacity other than 0 it violates the data
  model; the reserving constructor builds such vectors.
\<close>

definition bufferless :: "'a SimpleVector \<Rightarrow> bool" where
  "bufferless v = (size_m v = 0 \<and> cells (data_m v) = [])"

text \<open>The size lies within the buffer and every live slot has been written.\<close>

definition written :: "'a SimpleVector \<Rightarrow> bool" where
  "written v = (unat (size_m v) \<le> length (cells (data_m v))
                \<and> (\<forall>i < unat (size_m v). cells (data_m v) ! i \<noteq> None))"

section \<open>Basic facts\<close>

lemma and_then_Inl [simp]: "and_then (Inl e) f = Inl e"
  by (simp add: and_then_def)

lemma and_then_Inr [simp]: "and_then (Inr x) f = f x"
  by (simp add: and_then_def)

lemma replicate_numeral: "replicate (numeral k) x = x # replicate (pred_numeral k) x"
  by (simp add: numeral_eq_Suc)

lemma cells_ArrayPtr_new [simp]: "cells (ArrayPtr_new n) = replicate (unat n) None"
  by (simp add: cells_def ArrayPtr_new_def)

lemma cells_with_cells [simp]: "length b = length (cells p) \<Longrightarrow> cells (with_cells p b) = b"
  by (auto simp: cells_def with_cells_def split: option.splits)

section \<open>The owning buffer\<close>

lemma copy_assign_IllFormed: "copy_assign this other s = Inl IllFormed"
  by (simp add: copy_assign_def std_exchange_def)

lemma move_assign_distinct:
  "this \<noteq> other \<Longrightarrow>
   move_assign this other s =
     Inr ((s(other := (s other)\<lparr>raw_ptr := None\<rparr>))(this := (s this)\<lparr>raw_ptr := raw_ptr (s other)\<rparr>))"
  by (simp add: move_assign_def std_exchange_def Let_def)

text \<open>
  Claim C6 as it is stated lets the copy assignment \<^verbatim>\<open>a = b\<close> of two distinct buffers
  end with \<open>a\<close> holding the handle of \<open>b\<close> and \<open>b\<close> null, and lets the copy assignment
  of a buffer to itself end with nothing changed. The copy assignment ends in neither:
  a program that contains it does not compile.
\<close>

theorem copy_assign_has_no_result:
  "copy_assign 0 1 two_buffers = Inl IllFormed \<and> copy_assign 0 0 two_buffers = Inl IllFormed"
  by (simp add: copy_assign_IllFormed)

text \<open>
  Claim C6, amended. The copy assignment of an \<^verbatim>\<open>ArrayPtr\<close> is ill-formed, for distinct
  objects and for an object and itself. For two distinct objects \<open>a\<close> and \<open>b\<close> the move
  assignment of \<open>b\<close> to \<open>a\<close> leaves \<open>a\<close> with the handle that \<open>b\<close> held, leaves \<open>b\<close> null
  and leaves every other object as it was; the move assignment of an object to itself
  changes nothing.
\<close>

theorem move_assign_transfers:
  "(a \<noteq> b \<longrightarrow>
      (\<exists>s'. move_assign a b s = Inr s' \<and> raw_ptr (s' a) = raw_ptr (s b)
         \<and> raw_ptr (s' b) = None \<and> (\<forall>c. c \<noteq> a \<and> c \<noteq> b \<longrightarrow> s' c = s c)))
   \<and> move_assign a a s = Inr s
   \<and> copy_assign a b s = Inl IllFormed \<and> copy_assign a a s = Inl IllFormed"
  by (simp add: move_assign_distinct copy_assign_IllFormed) (simp add: move_assign_def)

theorem move_assign_transfers_witness:
  "(0::nat) \<noteq> 1 \<and> raw_ptr (two_buffers 1) = Some 20
   \<and> raw_ptr (projr (move_assign 0 1 two_buffers) 0) = Some 20
   \<and> raw_ptr (projr (move_assign 0 1 two_buffers) 1) = None
   \<and> move_assign 0 0 two_buffers = Inr two_buffers"
proof -
  have h: "(0::nat) \<noteq> 1" by simp
  have e: "raw_ptr (two_buffers 1) = Some 20" by (simp add: two_buffers_def)
  from move_assign_transfers [of 0 1 two_buffers] h
  obtain s' where m: "move_assign 0 1 two_buffers = Inr s'"
    and a: "raw_ptr (s' 0) = raw_ptr (two_buffers 1)" and b: "raw_ptr (s' 1) = None"
    by blast
  have z: "move_assign 0 0 two_buffers = Inr two_buffers"
    using move_assign_transfers [of 0 0 two_buffers] by blast
  show ?thesis using h e m a b z by simp
qed

section \<open>The reserving constructor\<close>

lemma SimpleVector_reserve_result:
  "SimpleVector_reserve dflt (Reserve_proxy n) =
     Inr \<lparr>size_m = 0, capacity_m = n, data_m = \<lparr>raw_ptr = None\<rparr>\<rparr>"
  by (simp add: SimpleVector_reserve_def Reserve_proxy_def Reserve_def
      SimpleVector_default_def ArrayPtr_default_def Let_def)

lemma PushBack_on_null_buffer:
  "n \<noteq> 0 \<Longrightarrow>
   PushBack dflt element \<lparr>size_m = 0, capacity_m = n, data_m = \<lparr>raw_ptr = None\<rparr>\<rparr>
     = Inl UndefinedBehaviour"
  by (cases element) (simp_all add: PushBack_def read_arg_def ArrayPtr_assign_def cells_def)

lemma PushBack_rv_on_null_buffer:
  "n \<noteq> 0 \<Longrightarrow>
   PushBack_rv dflt element \<lparr>size_m = 0, capacity_m = n, data_m = \<lparr>raw_ptr = None\<rparr>\<rparr>
     = Inl UndefinedBehaviour"
  by (cases element)
     (simp_all add: PushBack_rv_def read_arg_def ArrayPtr_assign_def cells_def)

text \<open>
  Claim C1 asks that a vector built from \<^verbatim>\<open>Reserve(n)\<close>, \<open>n > 0\<close>, has size 0, capacity
  \<open>n\<close> and \<open>n\<close> allocated slots, so that a following \<^verbatim>\<open>PushBack\<close> stores at index 0.
  The constructor sets \<^verbatim>\<open>capacity_\<close> before it calls \<^verbatim>\<open>Reserve(capacity_)\<close>, whose
  guard \<^verbatim>\<open>reserved_capacity <= capacity_\<close> then returns at once: size and capacity are
  as claimed, but the buffer stays null and has no slot, and the \<^verbatim>\<open>PushBack\<close> writes
  through the null pointer. Shown here for \<open>n = 5\<close>.
\<close>

theorem reserve_constructor_allocates_nothing:
  "SimpleVector_reserve (0::int) (Reserve_proxy 5)
     = Inr \<lparr>size_m = 0, capacity_m = 5, data_m = \<lparr>raw_ptr = None\<rparr>\<rparr>
   \<and> cells (data_m (projr (SimpleVector_reserve (0::int) (Reserve_proxy 5)))) = []
   \<and> and_then (SimpleVector_reserve (0::int) (Reserve_proxy 5)) (PushBack 0 (Value 1))
       = Inl UndefinedBehaviour
   \<and> and_then (SimpleVector_reserve (0::int) (Reserve_proxy 5)) (PushBack_rv 0 (Value 1))
       = Inl UndefinedBehaviour"
  by (simp add: SimpleVector_reserve_result PushBack_on_null_buffer
      PushBack_rv_on_null_buffer cells_def)

section \<open>Checked access\<close>

text \<open>
  Claim C3. \<^verbatim>\<open>At(i)\<close> throws \<^verbatim>\<open>std::out_of_range\<close> exactly when \<open>i\<close> is at least the
  size, whatever the capacity is; below the size it gives what \<^verbatim>\<open>operator[]\<close> gives,
  which on a well-formed vector is the live element at \<open>i\<close>; and the vector is the same
  after the call, failing or not.
\<close>

theorem At_checked:
  "(fst (At v i) = Inl OutOfRange \<longleftrightarrow> i \<ge> GetSize v)
   \<and> (i < GetSize v \<longrightarrow> fst (At v i) = index_op v i)
   \<and> (well_formed v \<and> i < GetSize v \<longrightarrow> fst (At v i) = Inr (elems v ! unat i))
   \<and> snd (At v i) = v"
  by (auto simp: At_def GetSize_def index_op_def ArrayPtr_index_def well_formed_def elems_def
      word_less_nat_alt word_le_nat_alt)

theorem At_checked_witness:
  "well_formed vec12_cap4 \<and> (1::size_t) < GetSize vec12_cap4 \<and> fst (At vec12_cap4 1) = Inr (Some 2)
   \<and> (3::size_t) \<ge> GetSize vec12_cap4 \<and> 3 < GetCapacity vec12_cap4
   \<and> At vec12_cap4 3 = (Inl OutOfRange, vec12_cap4)"
proof -
  have w: "well_formed vec12_cap4" by (simp add: well_formed_def vec12_cap4_def cells_def)
  have l: "(1::size_t) < GetSize vec12_cap4" by (simp add: GetSize_def vec12_cap4_def)
  have g: "(3::size_t) \<ge> GetSize vec12_cap4" by (simp add: GetSize_def vec12_cap4_def)
  have c: "(3::size_t) < GetCapacity vec12_cap4" by (simp add: GetCapacity_def vec12_cap4_def)
  have e: "elems vec12_cap4 ! unat (1::size_t) = Some 2"
    by (simp add: elems_def vec12_cap4_def cells_def)
  have r1: "fst (At vec12_cap4 1) = Inr (elems vec12_cap4 ! unat (1::size_t))"
    using At_checked [of vec12_cap4 1] w l by blast
  have r3: "fst (At vec12_cap4 3) = Inl OutOfRange \<and> snd (At vec12_cap4 3) = vec12_cap4"
    using At_checked [of vec12_cap4 3] g by blast
  have p: "At vec12_cap4 3 = (fst (At vec12_cap4 3), snd (At vec12_cap4 3))" by simp
  show ?thesis using w l g c e r1 r3 p by simp
qed

section \<open>The scenario on \<open>[1, 2, 3]\<close>\<close>

lemma init_123: "SimpleVector_init [1, 2, 3] = Inr vec123"
  by (simp add: SimpleVector_init_def vec123_def std_copy_list_def Let_def ArrayPtr_new_def
      cells_def with_cells_def replicate_numeral)

lemma push_4: "PushBack_rv 0 (Value 4) vec123 = Inr vec1234"
  by (simp add: PushBack_rv_def vec123_def vec1234_def std_generate_def std_move_def
      std_copy_def ArrayPtr_swap_def ArrayPtr_assign_def Let_def ArrayPtr_new_def cells_def
      with_cells_def replicate_numeral read_arg_def)

lemma erase_second: "Erase (begin_it vec1234 + 1) vec1234 = Inr (vec134, 1)"
  by (simp add: Erase_def vec1234_def vec134_def begin_it_def end_it_def cells_def
      with_cells_def Let_def)

lemma insert_front: "Insert_rv 0 (begin_it vec134) (Value 0) vec134 = Inr (vec0134, 0)"
  by (simp add: Insert_rv_def vec134_def vec0134_def begin_it_def std_move_backward_def
      std_copy_backward_def ArrayPtr_assign_def cells_def with_cells_def Let_def read_arg_def)

text \<open>
  Claim C2 as it is stated gives capacity 8 after \<^verbatim>\<open>PushBack(4)\<close> on \<open>[1, 2, 3]\<close> with
  capacity 3. The growth is \<^verbatim>\<open>capacity_ * 2\<close>, so the capacity after the call is 6.
\<close>

theorem scenario_capacity_is_not_8:
  "SimpleVector_init [1, 2, 3] = Inr vec123 \<and> GetCapacity vec123 = 3
   \<and> PushBack_rv 0 (Value 4) vec123 = Inr vec1234 \<and> GetCapacity vec1234 \<noteq> 8"
  by (intro conjI init_123 push_4) (simp_all add: GetCapacity_def vec123_def vec1234_def)

text \<open>
  Claim C2, amended. From \<open>[1, 2, 3]\<close> with size 3 and capacity 3, \<^verbatim>\<open>PushBack(4)\<close>
  gives size 4, capacity 6 and the elements \<open>[1, 2, 3, 4]\<close>; then \<^verbatim>\<open>Erase(begin() + 1)\<close>
  gives \<open>[1, 3, 4]\<close> with size 3; then \<^verbatim>\<open>Insert(begin(), 0)\<close> gives \<open>[0, 1, 3, 4]\<close> with
  size 4. Both calls with a literal argument take the overload for temporaries, and the
  temporary lies outside the buffer.
\<close>

theorem scenario_123:
  "SimpleVector_init [1, 2, 3] = Inr vec123
   \<and> GetSize vec123 = 3 \<and> GetCapacity vec123 = 3 \<and> elems vec123 = map Some [1, 2, 3]
   \<and> PushBack_rv 0 (Value 4) vec123 = Inr vec1234
   \<and> GetSize vec1234 = 4 \<and> GetCapacity vec1234 = 6 \<and> elems vec1234 = map Some [1, 2, 3, 4]
   \<and> Erase (begin_it vec1234 + 1) vec1234 = Inr (vec134, 1)
   \<and> GetSize vec134 = 3 \<and> elems vec134 = map Some [1, 3, 4]
   \<and> Insert_rv 0 (begin_it vec134) (Value 0) vec134 = Inr (vec0134, 0)
   \<and> GetSize vec0134 = 4 \<and> elems vec0134 = map Some [0, 1, 3, 4]"
  by (intro conjI init_123 push_4 erase_second insert_front)
     (simp_all add: GetSize_def GetCapacity_def elems_def cells_def vec123_def vec1234_def
      vec134_def vec0134_def)

section \<open>Facts about the buffer operations and \<^verbatim>\<open>size_t\<close>\<close>

lemma ArrayPtr_raw_ptr_upd [simp]: "(a::'p ArrayPtr)\<lparr>raw_ptr := raw_ptr b\<rparr> = b"
  by simp

lemma ArrayPtr_swap_eq [simp]: "ArrayPtr_swap a b = (b, a)"
  by (simp add: ArrayPtr_swap_def)

lemma with_cells_with_cells [simp]: "with_cells (with_cells p b) c = with_cells p c"
  by (simp add: with_cells_def split: option.splits)

lemma std_generate_fill: "std_generate p a b (\<lambda>_. d) = std_fill p a b d"
  by (simp add: std_generate_def std_fill_def)

lemma PushBack_rv_eq: "PushBack_rv dflt x v = PushBack dflt x v"
  by (simp add: PushBack_rv_def PushBack_def std_generate_fill std_move_def)

lemma Insert_rv_eq: "Insert_rv dflt pos x v = Insert dflt pos x v"
  by (simp add: Insert_rv_def Insert_def std_generate_fill std_move_def std_move_backward_def)

lemma std_fill_ok:
  "first \<le> lst \<Longrightarrow> lst \<le> length (cells p) \<Longrightarrow>
   std_fill p first lst x =
     Inr (with_cells p
       (take first (cells p) @ replicate (lst - first) (Some x) @ drop lst (cells p)))"
  by (simp add: std_fill_def)

lemma std_copy_ok:
  "first \<le> lst \<Longrightarrow> lst \<le> length (cells src) \<Longrightarrow>
   d_first + (lst - first) \<le> length (cells dst) \<Longrightarrow>
   std_copy src first lst dst d_first =
     Inr (with_cells dst
       (take d_first (cells dst) @ take (lst - first) (drop first (cells src))
        @ drop (d_first + (lst - first)) (cells dst)))"
  by (simp add: std_copy_def)

lemma ArrayPtr_assign_ok:
  "i < length (cells p) \<Longrightarrow>
   ArrayPtr_assign p i x = Inr (with_cells p ((cells p)[i := Some x]))"
  by (simp add: ArrayPtr_assign_def)

lemma take_Suc_list_update:
  "n < length xs \<Longrightarrow> take (Suc n) (xs[n := y]) = take n xs @ [y]"
  by (simp add: take_Suc_conv_app_nth)

lemma unat_succ: "(x::size_t) < y \<Longrightarrow> unat (x + 1) = unat x + 1"
  by unat_arith

lemma unat_double: "unat (c::size_t) * 2 < 2 ^ 64 \<Longrightarrow> unat (c * 2) = unat c * 2"
  using unat_mult_lem [of c 2] by simp

lemma unat_succ_half: "unat (c::size_t) * 2 < 2 ^ 64 \<Longrightarrow> unat (c + 1) = Suc (unat c)"
  using unat_add_lem [of c 1] by simp

lemma unat_pos: "(c::size_t) \<noteq> 0 \<Longrightarrow> Suc 0 \<le> unat c"
  using unat_gt_0 [of c] by simp

lemma max_one_double:
  assumes "(c::size_t) \<noteq> 0" "unat c * 2 < 2 ^ 64"
  shows "max 1 (c * 2) = c * 2"
  using assms unat_pos [of c] by (simp add: max_def word_le_nat_alt unat_double)

lemma succ_le_double:
  assumes "(c::size_t) \<noteq> 0" "unat c * 2 < 2 ^ 64"
  shows "c + 1 \<le> c * 2"
  using assms unat_pos [of c] by (simp add: word_le_nat_alt unat_double unat_succ_half)

section \<open>\<^verbatim>\<open>PushBack\<close>\<close>

lemma read_arg_Value [simp]: "read_arg (Value x) old_array = Inr x"
  by (simp add: read_arg_def)

text \<open>
  \<^verbatim>\<open>PushBack\<close> of an element outside the buffer, on a vector whose buffer has as many
  slots as its capacity says, with the doubled capacity representable in \<^verbatim>\<open>size_t\<close>
  when the vector is full.
\<close>

lemma PushBack_post:
  assumes wf: "well_formed v"
      and rep: "size_m v = capacity_m v \<longrightarrow> unat (capacity_m v) * 2 < 2 ^ 64"
  shows "\<exists>v'. PushBack dflt (Value x) v = Inr v'
     \<and> GetCapacity v' =
          (if GetSize v = GetCapacity v then max 1 (GetCapacity v * 2) else GetCapacity v)
     \<and> unat (GetCapacity v') =
          (if GetSize v = GetCapacity v then max 1 (unat (GetCapacity v) * 2)
           else unat (GetCapacity v))
     \<and> index_op v' (GetSize v) = Inr (Some x)
     \<and> GetSize v' = GetSize v + 1 \<and> unat (GetSize v') = unat (GetSize v) + 1
     \<and> elems v' = elems v @ [Some x]
     \<and> well_formed v'"
proof (cases "size_m v < capacity_m v")
  case True
  with wf show ?thesis
    by (auto simp add: PushBack_def well_formed_def ArrayPtr_assign_ok word_less_nat_alt
        word_le_nat_alt GetCapacity_def GetSize_def index_op_def elems_def
        ArrayPtr_index_def unat_succ [OF True] take_Suc_list_update)
next
  case False
  with wf have eq: "size_m v = capacity_m v" by (simp add: well_formed_def)
  with rep have r: "unat (capacity_m v) * 2 < 2 ^ 64" by simp
  show ?thesis
  proof (cases "capacity_m v = 0")
    case True
    with wf eq show ?thesis
      by (simp add: PushBack_def well_formed_def Let_def std_fill_ok std_copy_ok
          ArrayPtr_assign_ok GetCapacity_def GetSize_def index_op_def elems_def
          ArrayPtr_index_def)
  next
    case False
    with wf eq r unat_pos [OF False] show ?thesis
      by (simp add: PushBack_def well_formed_def Let_def std_fill_ok std_copy_ok
          ArrayPtr_assign_ok unat_double GetCapacity_def GetSize_def index_op_def elems_def
          ArrayPtr_index_def unat_gt_0 take_Suc_list_update max_one_double succ_le_double
          unat_succ_half)
  qed
qed

lemma well_formed_vec123: "well_formed vec123"
  by (simp add: well_formed_def vec123_def cells_def)

lemma well_formed_vec12_cap4: "well_formed vec12_cap4"
  by (simp add: well_formed_def vec12_cap4_def cells_def)

lemma reserve_5: "SimpleVector_reserve 0 (Reserve_proxy 5) = Inr reserved5"
  by (simp add: SimpleVector_reserve_result reserved5_def)

lemma PushBack_Own_full:
  "PushBack 0 (Own 0) vec123 = Inl UndefinedBehaviour"
  by (simp add: PushBack_def vec123_def std_fill_def std_copy_def Let_def ArrayPtr_new_def
      cells_def with_cells_def replicate_numeral read_arg_def)

text \<open>
  Claim C4 asks that \<^verbatim>\<open>PushBack(value)\<close> on every vector stores the value at the index
  of the old size and adds 1 to the size. On two inputs it does not. On the full vector
  \<open>[1, 2, 3]\<close> the call \<^verbatim>\<open>v.PushBack(v[0])\<close> grows the buffer, the growth block frees the
  old array, and \<^verbatim>\<open>data_[size_] = element\<close> then reads the reference into the freed
  array, with either overload. On the vector built from \<^verbatim>\<open>Reserve(5)\<close>, which has no
  buffer, \<^verbatim>\<open>PushBack(1)\<close> writes through the null pointer.
\<close>

theorem PushBack_reads_freed_element:
  "SimpleVector_init [1, 2, 3] = Inr vec123
   \<and> GetSize vec123 = GetCapacity vec123 \<and> index_op vec123 0 = Inr (Some 1)
   \<and> PushBack 0 (Own 0) vec123 = Inl UndefinedBehaviour
   \<and> PushBack_rv 0 (Own 0) vec123 = Inl UndefinedBehaviour
   \<and> SimpleVector_reserve 0 (Reserve_proxy 5) = Inr reserved5
   \<and> PushBack 0 (Value 1) reserved5 = Inl UndefinedBehaviour"
  by (intro conjI init_123 reserve_5 PushBack_Own_full)
     (simp_all add: PushBack_rv_eq PushBack_Own_full PushBack_on_null_buffer reserved5_def,
      simp_all add: GetSize_def GetCapacity_def index_op_def ArrayPtr_index_def vec123_def
        cells_def)

section \<open>\<^verbatim>\<open>Resize\<close>\<close>

lemma std_generate_ok:
  "first \<le> lst \<Longrightarrow> lst \<le> length (cells p) \<Longrightarrow>
   std_generate p first lst (\<lambda>_. x) =
     Inr (with_cells p
       (take first (cells p) @ replicate (lst - first) (Some x) @ drop lst (cells p)))"
  by (simp add: std_generate_def)

lemma Resize_post:
  assumes wf: "well_formed v"
  shows "\<exists>v'. Resize dflt n v = Inr v' \<and> GetSize v' = n \<and> well_formed v'
     \<and> GetCapacity v' = (if n > GetCapacity v then n else GetCapacity v)
     \<and> elems v' = (if n > GetSize v
                     then elems v @ replicate (unat n - unat (GetSize v)) (Some dflt)
                     else take (unat n) (elems v))
     \<and> (n \<le> GetCapacity v \<and> n \<le> GetSize v \<longrightarrow> data_m v' = data_m v)"
proof (cases "n > capacity_m v")
  case True
  with wf have "n > size_m v" by (auto simp add: well_formed_def)
  with wf True show ?thesis
    apply (simp add: Resize_def well_formed_def Let_def std_generate_ok std_move_def std_copy_ok
        GetCapacity_def GetSize_def elems_def word_less_nat_alt word_le_nat_alt)
    done
next
  case False
  show ?thesis
  proof (cases "n > size_m v")
    case True
    with wf False show ?thesis
    apply (simp add: Resize_def well_formed_def Let_def std_generate_ok std_move_def std_copy_ok
        GetCapacity_def GetSize_def elems_def word_less_nat_alt word_le_nat_alt)
      done
  next
    case n: False
    with wf False show ?thesis
    apply (simp add: Resize_def well_formed_def Let_def std_generate_ok std_move_def std_copy_ok
        GetCapacity_def GetSize_def elems_def word_less_nat_alt word_le_nat_alt)
      done
  qed
qed


text \<open>
  \<^verbatim>\<open>Resize\<close> on a vector whose buffer has as many slots as its capacity says: the three
  branches, and \<^verbatim>\<open>Resize(k)\<close> followed by \<^verbatim>\<open>Resize(j)\<close> for \<open>j \<le> k \<le> size\<close>.
\<close>

lemma Resize_on_well_formed:
  assumes "well_formed v"
  shows "(\<exists>v'. Resize dflt n v = Inr v' \<and> GetSize v' = n \<and> well_formed v'
       \<and> (GetCapacity v < n \<longrightarrow>
            GetCapacity v' = n
            \<and> elems v' = elems v @ replicate (unat n - unat (GetSize v)) (Some dflt))
       \<and> (GetSize v < n \<and> n \<le> GetCapacity v \<longrightarrow>
            GetCapacity v' = GetCapacity v
            \<and> elems v' = elems v @ replicate (unat n - unat (GetSize v)) (Some dflt))
       \<and> (n \<le> GetSize v \<longrightarrow>
            GetCapacity v' = GetCapacity v \<and> elems v' = take (unat n) (elems v)))
     \<and> length (elems v) = unat (GetSize v)
     \<and> (j \<le> k \<and> k \<le> GetSize v \<longrightarrow>
          (\<exists>v1 v2. Resize dflt k v = Inr v1 \<and> Resize dflt j v1 = Inr v2
             \<and> GetSize v2 = j \<and> elems v2 = take (unat j) (elems v)))"
proof (intro conjI impI)
  from Resize_post [OF assms, of dflt n]
  obtain v' where r: "Resize dflt n v = Inr v'" "GetSize v' = n" "well_formed v'"
     "GetCapacity v' = (if n > GetCapacity v then n else GetCapacity v)"
     "elems v' = (if n > GetSize v
                     then elems v @ replicate (unat n - unat (GetSize v)) (Some dflt)
                     else take (unat n) (elems v))"
    by blast
  have sc: "GetSize v \<le> GetCapacity v"
    using assms by (simp add: well_formed_def GetSize_def GetCapacity_def)
  show "\<exists>v'. Resize dflt n v = Inr v' \<and> GetSize v' = n \<and> well_formed v'
       \<and> (GetCapacity v < n \<longrightarrow>
            GetCapacity v' = n
            \<and> elems v' = elems v @ replicate (unat n - unat (GetSize v)) (Some dflt))
       \<and> (GetSize v < n \<and> n \<le> GetCapacity v \<longrightarrow>
            GetCapacity v' = GetCapacity v
            \<and> elems v' = elems v @ replicate (unat n - unat (GetSize v)) (Some dflt))
       \<and> (n \<le> GetSize v \<longrightarrow>
            GetCapacity v' = GetCapacity v \<and> elems v' = take (unat n) (elems v))"
    using r sc by (intro exI [of _ v']) auto
next
  show "length (elems v) = unat (GetSize v)"
    using assms by (simp add: well_formed_def elems_def GetSize_def word_le_nat_alt)
next
  assume jk: "j \<le> k \<and> k \<le> GetSize v"
  from Resize_post [OF assms, of dflt k] jk
  obtain v1 where r1: "Resize dflt k v = Inr v1" "GetSize v1 = k" "well_formed v1"
     "elems v1 = take (unat k) (elems v)"
    by auto
  from Resize_post [OF r1(3), of dflt j] jk r1(2)
  obtain v2 where r2: "Resize dflt j v1 = Inr v2" "GetSize v2 = j"
     "elems v2 = take (unat j) (elems v1)"
    by auto
  from jk have "unat j \<le> unat k" by (simp add: word_le_nat_alt)
  with r1 r2 show "\<exists>v1 v2. Resize dflt k v = Inr v1 \<and> Resize dflt j v1 = Inr v2
             \<and> GetSize v2 = j \<and> elems v2 = take (unat j) (elems v)"
    by (intro exI [of _ v1] exI [of _ v2]) (simp add: min_def)
qed

lemma Resize_reserved5: "Resize 0 3 reserved5 = Inl UndefinedBehaviour"
  by (simp add: Resize_def reserved5_def std_generate_def cells_def)

text \<open>
  Claim C5 asks that \<^verbatim>\<open>Resize(n)\<close> on every vector with size \<open>s\<close> and capacity \<open>c\<close>,
  \<open>s < n \<le> c\<close>, sets the size to \<open>n\<close> and default-initialises the slots from \<open>s\<close> to
  \<open>n\<close>. The vector built from \<^verbatim>\<open>Reserve(5)\<close> has size 0 and capacity 5 and no buffer:
  \<^verbatim>\<open>Resize(3)\<close> skips the reallocation and runs \<^verbatim>\<open>std::generate\<close> over three slots from
  the null pointer.
\<close>

theorem Resize_through_null_buffer:
  "SimpleVector_reserve 0 (Reserve_proxy 5) = Inr reserved5
   \<and> GetSize reserved5 = 0 \<and> GetCapacity reserved5 = 5
   \<and> GetSize reserved5 < 3 \<and> 3 \<le> GetCapacity reserved5
   \<and> Resize 0 3 reserved5 = Inl UndefinedBehaviour"
  by (intro conjI reserve_5 Resize_reserved5)
     (simp_all add: GetSize_def GetCapacity_def reserved5_def)

section \<open>\<^verbatim>\<open>Erase\<close> and \<^verbatim>\<open>Insert\<close>\<close>

declare Erase_loop.simps [simp del]

lemma Erase_loop_shift:
  "it \<le> stop \<Longrightarrow> stop < length b \<Longrightarrow>
   Erase_loop b it stop = Inr (take it b @ take (stop - it) (drop (Suc it) b) @ drop stop b)"
proof (induction b it stop rule: Erase_loop.induct)
  case (1 b it stop)
  show ?case
  proof (cases "it = stop")
    case True
    then show ?thesis by (simp add: Erase_loop.simps [of b stop stop])
  next
    case False
    with "1.prems" have lt: "it < stop" "Suc it < length b" by auto
    let ?b = "b[it := b ! (it + 1)]"
    have ih: "Erase_loop ?b (it + 1) stop =
        Inr (take (it + 1) ?b @ take (stop - (it + 1)) (drop (Suc (it + 1)) ?b) @ drop stop ?b)"
      using "1.IH" [OF False] lt "1.prems" by simp
    have a: "take (it + 1) ?b = take it b @ [b ! (it + 1)]"
      using lt by (simp add: take_Suc_list_update)
    have b: "drop (Suc (it + 1)) ?b = drop (Suc (Suc it)) b" by simp
    have c: "drop stop ?b = drop stop b" using lt by simp
    have d: "take (stop - it) (drop (Suc it) b) = b ! (it + 1) # take (stop - (it + 1)) (drop (Suc (Suc it)) b)"
    proof -
      have "drop (Suc it) b = b ! (it + 1) # drop (Suc (Suc it)) b"
        using lt by (simp add: Cons_nth_drop_Suc)
      moreover have "stop - it = Suc (stop - (it + 1))" using lt by simp
      ultimately show ?thesis by simp
    qed
    show ?thesis
      using False lt ih a b c d by (simp add: Erase_loop.simps [of b it stop])
  qed
qed


lemma std_copy_backward_ok:
  "first \<le> lst \<Longrightarrow> lst \<le> length (cells p) \<Longrightarrow> lst - first \<le> d_last \<Longrightarrow>
   d_last \<le> length (cells p) \<Longrightarrow>
   std_copy_backward p first lst d_last =
     Inr (with_cells p
       (take (d_last - (lst - first)) (cells p) @ take (lst - first) (drop first (cells p))
        @ drop d_last (cells p)))"
  by (simp add: std_copy_backward_def)

lemma unat_pred: "(x::size_t) \<noteq> 0 \<Longrightarrow> unat (x - 1) = unat x - 1"
  by (simp add: unat_minus_one)

lemma Erase_post:
  assumes wf: "well_formed v" and pos: "pos < end_it v"
  shows "\<exists>v'. Erase pos v = Inr (v', pos)
     \<and> GetSize v' = GetSize v - 1 \<and> unat (GetSize v') = unat (GetSize v) - 1
     \<and> GetCapacity v' = GetCapacity v
     \<and> elems v' = take pos (elems v) @ drop (Suc pos) (elems v)
     \<and> well_formed v'"
proof -
  from pos have nz: "size_m v \<noteq> 0" by (auto simp: end_it_def)
  from wf have len: "length (cells (data_m v)) = unat (capacity_m v)"
    and sc: "unat (size_m v) \<le> unat (capacity_m v)"
    by (simp_all add: well_formed_def word_le_nat_alt)
  from pos have ps: "pos \<le> unat (size_m v) - 1" "unat (size_m v) - 1 < unat (size_m v)"
    by (simp_all add: end_it_def)
  have loop: "Erase_loop (cells (data_m v)) pos (unat (size_m v) - 1) =
     Inr (take pos (cells (data_m v))
          @ take (unat (size_m v) - 1 - pos) (drop (Suc pos) (cells (data_m v)))
          @ drop (unat (size_m v) - 1) (cells (data_m v)))"
    using ps sc len by (intro Erase_loop_shift) simp_all
  have le: "size_m v - 1 \<le> capacity_m v"
    using nz sc by (simp add: word_le_nat_alt unat_pred)
  show ?thesis
    using nz len sc ps le loop
    apply (simp add: Erase_def Let_def end_it_def GetSize_def GetCapacity_def elems_def
        well_formed_def unat_pred drop_take)
    done
qed


lemma update_take_Suc_append:
  "pos < length cs \<Longrightarrow> (take (Suc pos) cs @ ys)[pos := y] = take pos cs @ y # ys"
  by (simp add: take_Suc_conv_app_nth list_update_append)

text \<open>
  \<^verbatim>\<open>Insert\<close> of an element outside the buffer, on a vector whose buffer has as many
  slots as its capacity says.
\<close>

lemma Insert_post:
  assumes wf: "well_formed v" and pos: "pos \<le> end_it v"
      and rep: "size_m v = capacity_m v \<longrightarrow> unat (capacity_m v) * 2 < 2 ^ 64"
  shows "\<exists>v'. Insert dflt pos (Value x) v = Inr (v', pos)
     \<and> GetCapacity v' =
          (if GetSize v = GetCapacity v then max 1 (GetCapacity v * 2) else GetCapacity v)
     \<and> GetSize v' = GetSize v + 1 \<and> unat (GetSize v') = unat (GetSize v) + 1
     \<and> elems v' = take pos (elems v) @ Some x # drop pos (elems v)
     \<and> well_formed v'"
proof (cases "size_m v < capacity_m v")
  case True
  with wf pos show ?thesis
    apply (auto simp add: Insert_def well_formed_def ArrayPtr_assign_ok word_less_nat_alt
        word_le_nat_alt GetCapacity_def GetSize_def elems_def end_it_def Let_def
        std_copy_backward_ok unat_succ [OF True] update_take_Suc_append drop_take
        Suc_diff_le)
    done
next
  case False
  with wf have eq: "size_m v = capacity_m v" by (simp add: well_formed_def)
  with rep have r: "unat (capacity_m v) * 2 < 2 ^ 64" by simp
  show ?thesis
  proof (cases "capacity_m v = 0")
    case True
    with wf eq pos show ?thesis
      apply (simp add: Insert_def well_formed_def Let_def std_fill_ok std_copy_ok
          ArrayPtr_assign_ok GetCapacity_def GetSize_def elems_def end_it_def)
      done
  next
    case False
    with wf eq r pos unat_pos [OF False] show ?thesis
      apply (simp add: Insert_def well_formed_def Let_def std_fill_ok std_copy_ok
          ArrayPtr_assign_ok unat_double GetCapacity_def GetSize_def elems_def end_it_def
          unat_gt_0 take_Suc_list_update max_one_double succ_le_double
          unat_succ_half drop_take Suc_diff_le)
      done
  qed
qed


text \<open>
  Under the same conditions \<^verbatim>\<open>Erase\<close> at the position that \<^verbatim>\<open>Insert\<close> returned gives
  back the size and the elements.
\<close>

lemma Insert_Erase_post:
  assumes wf: "well_formed v" and pos: "pos \<le> end_it v"
      and rep: "size_m v = capacity_m v \<longrightarrow> unat (capacity_m v) * 2 < 2 ^ 64"
  shows "\<exists>v' v''. Insert dflt pos (Value x) v = Inr (v', pos)
           \<and> Erase pos v' = Inr (v'', pos)
           \<and> GetSize v'' = GetSize v \<and> elems v'' = elems v"
proof -
  from Insert_post [OF wf pos rep, of dflt x]
  obtain v' where i: "Insert dflt pos (Value x) v = Inr (v', pos)"
    and s: "GetSize v' = GetSize v + 1" "unat (GetSize v') = unat (GetSize v) + 1"
    and e: "elems v' = take pos (elems v) @ Some x # drop pos (elems v)"
    and w: "well_formed v'"
    by blast
  from pos s have p': "pos < end_it v'" by (simp add: end_it_def GetSize_def)
  from Erase_post [OF w p']
  obtain v'' where r: "Erase pos v' = Inr (v'', pos)"
    and s': "GetSize v'' = GetSize v' - 1"
    and e': "elems v'' = take pos (elems v') @ drop (Suc pos) (elems v')"
    by blast
  have l: "length (elems v) = unat (size_m v)"
    using wf by (simp add: elems_def well_formed_def word_le_nat_alt)
  with pos have lp: "length (take pos (elems v)) = pos" by (simp add: end_it_def)
  have "elems v'' = elems v" using e e' lp by simp
  moreover have "GetSize v'' = GetSize v" using s s' by simp
  ultimately show ?thesis using i r by blast
qed

text \<open>
  Without growth the element is read after the shift: inserting \<^verbatim>\<open>v[2]\<close> at the front of
  \<open>[1, 2, 3]\<close> inserts the 2 that the shift has put into that slot.
\<close>

lemma Insert_Own_shifted:
  "Insert 0 (begin_it vec123_cap4) (Own 2) vec123_cap4 = Inr (vec2123, 0)"
  by (simp add: Insert_def vec123_cap4_def vec2123_def begin_it_def std_copy_backward_def
      ArrayPtr_assign_def cells_def with_cells_def Let_def read_arg_def)

lemma Insert_on_null_buffer:
  "Insert 0 (begin_it reserved5) (Value 1) reserved5 = Inl UndefinedBehaviour"
  by (simp add: Insert_def reserved5_def begin_it_def std_copy_backward_def cells_def)

text \<open>
  Claim C8 asks that on every vector \<^verbatim>\<open>Insert(pos, v)\<close> at a position from \<^verbatim>\<open>begin()\<close>
  to \<^verbatim>\<open>end()\<close>, followed by \<^verbatim>\<open>Erase\<close> at the returned position, gives back the size and
  the elements. On the vector built from \<^verbatim>\<open>Reserve(5)\<close>, where \<^verbatim>\<open>begin()\<close> and \<^verbatim>\<open>end()\<close>
  are the same null pointer, \<^verbatim>\<open>Insert(begin(), 1)\<close> does not grow the buffer (size 0 is
  below capacity 5) and writes \<^verbatim>\<open>data_[0]\<close> through the null pointer, with either
  overload: there is no vector to erase from.
\<close>

theorem Insert_through_null_buffer:
  "SimpleVector_reserve 0 (Reserve_proxy 5) = Inr reserved5
   \<and> begin_it reserved5 = end_it reserved5
   \<and> Insert 0 (begin_it reserved5) (Value 1) reserved5 = Inl UndefinedBehaviour
   \<and> Insert_rv 0 (begin_it reserved5) (Value 1) reserved5 = Inl UndefinedBehaviour"
  by (intro conjI reserve_5 Insert_on_null_buffer)
     (simp_all add: Insert_rv_eq Insert_on_null_buffer,
      simp add: begin_it_def end_it_def reserved5_def)

section \<open>\<^verbatim>\<open>Insert\<close> at \<^verbatim>\<open>end()\<close>\<close>

lemma with_cells_cells [simp]: "with_cells p (cells p) = p"
  by (simp add: with_cells_def cells_def split: option.splits)

lemma std_copy_empty:
  "std_copy src a a dst d =
     (if a \<le> length (cells src) \<and> d \<le> length (cells dst) then Inr dst
      else Inl UndefinedBehaviour)"
  by (simp add: std_copy_def)

lemma std_copy_backward_empty:
  "std_copy_backward p a a d =
     (if a \<le> length (cells p) \<and> d \<le> length (cells p) then Inr p
      else Inl UndefinedBehaviour)"
  by (simp add: std_copy_backward_def)

lemma std_fill_InrD:
  "std_fill p a b x = Inr q \<Longrightarrow>
   a \<le> b \<and> b \<le> length (cells p) \<and> length (cells q) = length (cells p)"
  by (auto simp: std_fill_def split: if_splits)

lemma std_copy_InrD:
  "std_copy src a b dst d = Inr q \<Longrightarrow>
   a \<le> b \<and> b \<le> length (cells src) \<and> d + (b - a) \<le> length (cells dst)
   \<and> length (cells q) = length (cells dst)"
  by (auto simp: std_copy_def split: if_splits)

lemma std_copy_backward_InrD:
  "std_copy_backward p a b d = Inr q \<Longrightarrow>
   a \<le> b \<and> b \<le> length (cells p) \<and> b - a \<le> d \<and> d \<le> length (cells p)
   \<and> length (cells q) = length (cells p)"
  by (auto simp: std_copy_backward_def split: if_splits)

lemma ArrayPtr_assign_InrD:
  "ArrayPtr_assign p i x = Inr q \<Longrightarrow>
   i < length (cells p) \<and> length (cells q) = length (cells p)"
  by (auto simp: ArrayPtr_assign_def split: if_splits)

text \<open>
  For an element outside the buffer, \<^verbatim>\<open>Insert\<close> at \<^verbatim>\<open>end()\<close> and \<^verbatim>\<open>PushBack\<close> have the
  same outcome on every vector.
\<close>

lemma Insert_end_PushBack:
  "Insert dflt (end_it v) (Value x) v
     = and_then (PushBack dflt (Value x) v) (\<lambda>v'. Inr (v', end_it v))"
proof (cases "size_m v \<ge> capacity_m v")
  case False
  then show ?thesis
    by (simp add: Insert_def PushBack_def Let_def end_it_def std_copy_backward_empty
        ArrayPtr_assign_def)
next
  case True
  define inc where "inc = (if capacity_m v = 0 then 1 else capacity_m v * 2)"
  define n where "n = unat (size_m v)"
  show ?thesis
  proof (cases "std_fill (ArrayPtr_new inc) 0 (unat inc) dflt")
    case (Inl e)
    with True show ?thesis
      by (simp add: Insert_def PushBack_def Let_def end_it_def flip: inc_def)
  next
    case t1: (Inr t1)
    show ?thesis
    proof (cases "std_copy (data_m v) 0 n t1 0")
      case (Inl e)
      with True t1 show ?thesis
        by (simp add: Insert_def PushBack_def Let_def end_it_def flip: inc_def n_def)
    next
      case t2: (Inr t2)
      show ?thesis
      proof (cases "ArrayPtr_assign t2 n x")
        case (Inl e)
        with True t1 t2 show ?thesis
          by (simp add: Insert_def PushBack_def Let_def end_it_def flip: inc_def n_def)
      next
        case t3: (Inr t3)
        from std_copy_InrD [OF t2] ArrayPtr_assign_InrD [OF t3]
        have "n \<le> length (cells (data_m v))" "Suc n \<le> length (cells t3)" by auto
        with True t1 t2 t3 show ?thesis
          by (simp add: Insert_def PushBack_def Let_def end_it_def std_copy_empty
              flip: inc_def n_def)
      qed
    qed
  qed
qed

lemma Insert_Own_full: "Insert 0 (end_it vec123) (Own 0) vec123 = Inr (vec1231, 3)"
  by (simp add: Insert_def vec123_def vec1231_def end_it_def std_fill_def std_copy_def
      ArrayPtr_assign_def Let_def ArrayPtr_new_def cells_def with_cells_def
      replicate_numeral read_arg_def)

text \<open>
  Claim C10 asks that \<^verbatim>\<open>Insert(v.end(), x)\<close> and \<^verbatim>\<open>PushBack(x)\<close> give the same size,
  capacity and elements on every vector and for every \<open>x\<close>. On the full vector
  \<open>[1, 2, 3]\<close> with \<open>x\<close> the element \<^verbatim>\<open>v[0]\<close> they differ: \<^verbatim>\<open>Insert\<close> reads \<open>x\<close> inside the
  growth block, while the old array is alive, and gives \<open>[1, 2, 3, 1]\<close>; \<^verbatim>\<open>PushBack\<close>
  reads \<open>x\<close> after the growth block has freed the old array.
\<close>

theorem PushBack_differs_from_Insert_at_end:
  "SimpleVector_init [1, 2, 3] = Inr vec123
   \<and> GetSize vec123 = GetCapacity vec123 \<and> index_op vec123 0 = Inr (Some 1)
   \<and> Insert 0 (end_it vec123) (Own 0) vec123 = Inr (vec1231, 3)
   \<and> GetSize vec1231 = 4 \<and> GetCapacity vec1231 = 6 \<and> elems vec1231 = map Some [1, 2, 3, 1]
   \<and> PushBack 0 (Own 0) vec123 = Inl UndefinedBehaviour"
  by (intro conjI init_123 Insert_Own_full PushBack_Own_full)
     (simp_all add: GetSize_def GetCapacity_def index_op_def ArrayPtr_index_def elems_def
        vec123_def vec1231_def cells_def)

section \<open>The invariant \<open>size \<le> capacity\<close>\<close>

lemma and_then_InrD: "and_then m f = Inr y \<Longrightarrow> \<exists>x. m = Inr x \<and> f x = Inr y"
  by (cases m) simp_all

lemma succ_le: "(x::size_t) < y \<Longrightarrow> x + 1 \<le> y"
  by (simp add: inc_le)

lemma succ_le_nat: "Suc (unat (x::size_t)) \<le> unat y \<Longrightarrow> x + 1 \<le> y"
  using succ_le [of x y] by (simp add: word_less_nat_alt)

lemma pred_le: "(x::size_t) \<le> c \<Longrightarrow> x \<noteq> 0 \<Longrightarrow> x - 1 \<le> c"
  using unat_pos [of x] by (simp add: word_le_nat_alt unat_pred)

lemma PushBack_inv:
  assumes "PushBack dflt x w = Inr v"
  shows "size_m v \<le> capacity_m v"
proof (cases "size_m w \<ge> capacity_m w")
  case False
  with assms show ?thesis
    by (auto simp: PushBack_def not_le succ_le dest!: and_then_InrD)
next
  case True
  with assms show ?thesis
    apply (simp add: PushBack_def Let_def)
    apply (auto dest!: and_then_InrD std_fill_InrD std_copy_InrD ArrayPtr_assign_InrD)
    apply (auto simp: word_less_nat_alt[symmetric] succ_le unat_eq_0)
    done
qed


lemma Insert_inv:
  assumes "Insert dflt pos x w = Inr (v, it)"
  shows "size_m v \<le> capacity_m v"
proof (cases "size_m w \<ge> capacity_m w")
  case False
  with assms show ?thesis
    by (auto simp: Insert_def Let_def not_le succ_le dest!: and_then_InrD)
next
  case True
  with assms show ?thesis
    apply (simp add: Insert_def Let_def)
    apply (auto dest!: and_then_InrD std_fill_InrD std_copy_InrD ArrayPtr_assign_InrD)
    apply (auto simp: word_less_nat_alt[symmetric] succ_le unat_eq_0 succ_le_nat)
    done
qed

lemma Resize_inv: "Resize dflt n w = Inr v \<Longrightarrow> size_m v \<le> capacity_m v"
  by (auto simp: Resize_def Let_def not_less dest!: and_then_InrD split: if_splits)

lemma Reserve_inv:
  "Reserve dflt n w = Inr v \<Longrightarrow> size_m w \<le> capacity_m w \<Longrightarrow> size_m v \<le> capacity_m v"
  by (auto simp: Reserve_def Let_def not_le dest!: and_then_InrD split: if_splits)

lemma Erase_inv:
  "Erase pos w = Inr (v, it) \<Longrightarrow> size_m w \<le> capacity_m w \<Longrightarrow> size_m v \<le> capacity_m v"
  by (auto simp: Erase_def Let_def pred_le dest!: and_then_InrD split: if_splits)


lemma count_inv: "SimpleVector_count dflt n = Inr v \<Longrightarrow> size_m v \<le> capacity_m v"
  by (auto simp: SimpleVector_count_def Let_def dest!: and_then_InrD)

lemma value_inv: "SimpleVector_value n x = Inr v \<Longrightarrow> size_m v \<le> capacity_m v"
  by (auto simp: SimpleVector_value_def Let_def dest!: and_then_InrD)

lemma init_inv: "SimpleVector_init xs = Inr v \<Longrightarrow> size_m v \<le> capacity_m v"
  by (auto simp: SimpleVector_init_def Let_def dest!: and_then_InrD)

lemma reserve_inv: "SimpleVector_reserve dflt obj = Inr v \<Longrightarrow> size_m v \<le> capacity_m v"
  by (auto simp: SimpleVector_reserve_def Let_def SimpleVector_default_def dest!: Reserve_inv)

lemma copy_inv: "SimpleVector_copy dflt w = Inr v \<Longrightarrow> size_m v \<le> capacity_m v"
  by (auto simp: SimpleVector_copy_def Let_def swap_vec_def dest!: and_then_InrD count_inv)

text \<open>
  Claim C7. Every vector that can be built, from any constructor and by any sequence of
  \<^verbatim>\<open>PushBack\<close>, \<^verbatim>\<open>PopBack\<close>, \<^verbatim>\<open>Insert\<close>, \<^verbatim>\<open>Erase\<close>, \<^verbatim>\<open>Resize\<close>, \<^verbatim>\<open>Reserve\<close>, \<^verbatim>\<open>Clear\<close>
  and \<^verbatim>\<open>swap\<close> used within their preconditions, has \<open>0 \<le> size \<le> capacity\<close>.
\<close>

theorem size_le_capacity:
  "reachable dflt v \<Longrightarrow> 0 \<le> GetSize v \<and> GetSize v \<le> GetCapacity v"
proof (induction rule: reachable.induct)
  case by_default
  show ?case by (simp add: SimpleVector_default_def GetSize_def GetCapacity_def)
next
  case (after_PopBack w)
  then show ?case by (simp add: PopBack_def GetSize_def GetCapacity_def pred_le)
qed (auto simp: GetSize_def GetCapacity_def PushBack_rv_eq Insert_rv_eq Clear_def
      SimpleVector_move_def ArrayPtr_move_def swap_vec_def
      dest: count_inv value_inv init_inv reserve_inv copy_inv PushBack_inv Insert_inv
        Erase_inv Resize_inv Reserve_inv)

theorem size_le_capacity_witness:
  "reachable 0 vec134 \<and> 0 \<le> GetSize vec134 \<and> GetSize vec134 \<le> GetCapacity vec134
   \<and> GetSize vec134 = 3 \<and> GetCapacity vec134 = 6"
proof -
  have b: "begin_it vec1234 \<le> begin_it vec1234 + 1" by simp
  have e: "begin_it vec1234 + 1 < end_it vec1234"
    by (simp add: begin_it_def end_it_def vec1234_def)
  have r: "reachable 0 vec134"
    by (rule reachable.after_Erase [OF
          reachable.after_PushBack_rv [OF reachable.by_init [OF init_123] push_4]
          b e erase_second])
  have v: "GetSize vec134 = 3 \<and> GetCapacity vec134 = 6"
    by (simp add: GetSize_def GetCapacity_def vec134_def)
  show ?thesis using r size_le_capacity [OF r] v by simp
qed

section \<open>Comparison operators\<close>

lemma lexicographic_less_Nil [simp]: "lexicographic_less lt [] ys = (ys \<noteq> [])"
  by (auto simp: lexicographic_less_def)

lemma lexicographic_less_Nil2 [simp]: "lexicographic_less lt xs [] = False"
  by (auto simp: lexicographic_less_def)

lemma lexicographic_less_Cons [simp]:
  "lexicographic_less lt (x # xs) (y # ys) =
     (lt x y \<or> (\<not> lt y x \<and> lexicographic_less lt xs ys))"
proof
  assume "lexicographic_less lt (x # xs) (y # ys)"
  then obtain k where k: "k \<le> Suc (length xs)" "k < Suc (length ys)"
     "\<forall>i<k. \<not> lt ((x # xs) ! i) ((y # ys) ! i) \<and> \<not> lt ((y # ys) ! i) ((x # xs) ! i)"
     "k = Suc (length xs) \<or> lt ((x # xs) ! k) ((y # ys) ! k)"
    by (auto simp: lexicographic_less_def)
  show "lt x y \<or> (\<not> lt y x \<and> lexicographic_less lt xs ys)"
  proof (cases k)
    case 0
    with k show ?thesis by simp
  next
    case (Suc j)
    with k(3) have h0: "\<not> lt x y \<and> \<not> lt y x" by auto
    from Suc k(3) have "\<forall>i<j. \<not> lt (xs ! i) (ys ! i) \<and> \<not> lt (ys ! i) (xs ! i)" by auto
    with Suc k(1,2,4) have "lexicographic_less lt xs ys"
      by (auto simp: lexicographic_less_def intro!: bexI [of _ j])
    with h0 show ?thesis by simp
  qed
next
  assume a: "lt x y \<or> (\<not> lt y x \<and> lexicographic_less lt xs ys)"
  show "lexicographic_less lt (x # xs) (y # ys)"
  proof (cases "lt x y")
    case True
    then show ?thesis by (auto simp: lexicographic_less_def intro!: bexI [of _ 0])
  next
    case False
    with a have n: "\<not> lt y x" and l: "lexicographic_less lt xs ys" by simp_all
    from l obtain k where k: "k \<le> length xs" "k < length ys"
     "\<forall>i<k. \<not> lt (xs ! i) (ys ! i) \<and> \<not> lt (ys ! i) (xs ! i)"
     "k = length xs \<or> lt (xs ! k) (ys ! k)"
      by (auto simp: lexicographic_less_def)
    have "\<forall>i<Suc k. \<not> lt ((x # xs) ! i) ((y # ys) ! i) \<and> \<not> lt ((y # ys) ! i) ((x # xs) ! i)"
      using k(3) False n by (auto simp: less_Suc_eq_0_disj)
    with k(1,2,4) show ?thesis
      by (auto simp: lexicographic_less_def intro!: bexI [of _ "Suc k"])
  qed
qed

lemma std_lexicographical_compare_values:
  "std_lexicographical_compare lt (map Some xs) (map Some ys) = Inr (lexicographic_less lt xs ys)"
proof (induction xs arbitrary: ys)
  case Nil
  then show ?case by (cases ys) simp_all
next
  case (Cons x xs)
  then show ?case by (cases ys) auto
qed

lemma all_equal_Cons [simp]: "all_equal eq (x # xs) (y # ys) = (eq x y \<and> all_equal eq xs ys)"
  by (simp add: all_equal_def Ball_def All_less_Suc2)

lemma std_equal_values:
  "length xs = length ys \<Longrightarrow>
   std_equal eq (map Some xs) (map Some ys @ rest) = Inr (all_equal eq xs ys)"
proof (induction xs arbitrary: ys)
  case Nil
  then show ?case by (simp add: all_equal_def)
next
  case (Cons x xs)
  then show ?case by (cases ys) auto
qed

lemma lexicographic_less_linorder:
  "lexicographic_less (<) xs ys \<longleftrightarrow> (xs, ys) \<in> lexord {(a, b :: 'a :: linorder). a < b}"
proof (induction xs arbitrary: ys)
  case Nil
  then show ?case by (cases ys) simp_all
next
  case (Cons x xs)
  then show ?case by (cases ys) auto
qed


lemma all_equal_Nil [simp]: "all_equal eq [] ys = True"
  by (simp add: all_equal_def)

lemma slots_of_live:
  assumes "elems v = map Some xs" "length xs = unat (GetSize v)"
  shows "slots_of (data_m v) (begin_it v) (end_it v) = Inr (map Some xs)"
    and "\<exists>rest. cells (data_m v) = map Some xs @ rest"
proof -
  from assms have l: "unat (size_m v) \<le> length (cells (data_m v))"
    by (metis GetSize_def elems_def length_map length_take min.cobounded1 min.commute)
  with assms show "slots_of (data_m v) (begin_it v) (end_it v) = Inr (map Some xs)"
    by (simp add: slots_of_def begin_it_def end_it_def elems_def)
  have "cells (data_m v) = elems v @ drop (unat (size_m v)) (cells (data_m v))"
    by (simp add: elems_def)
  with assms show "\<exists>rest. cells (data_m v) = map Some xs @ rest" by metis
qed

lemma op_eq_values:
  assumes "elems lhs = map Some xs" "length xs = unat (GetSize lhs)"
      and "elems rhs = map Some ys" "length ys = unat (GetSize rhs)"
  shows "op_eq eq lhs rhs = Inr (GetSize lhs = GetSize rhs \<and> all_equal eq xs ys)"
proof (cases "GetSize lhs = GetSize rhs")
  case False
  then show ?thesis by (simp add: op_eq_def)
next
  case True
  with assms have len: "length xs = length ys" by simp
  from slots_of_live(2) [OF assms(3,4)] obtain rest
    where r: "cells (data_m rhs) = map Some ys @ rest" by blast
  show ?thesis
    using True slots_of_live(1) [OF assms(1,2)] r std_equal_values [OF len, of eq rest]
    by (simp add: op_eq_def begin_it_def)
qed

lemma op_lt_values:
  assumes "elems lhs = map Some xs" "length xs = unat (GetSize lhs)"
      and "elems rhs = map Some ys" "length ys = unat (GetSize rhs)"
  shows "op_lt lt lhs rhs = Inr (lexicographic_less lt xs ys)"
  using slots_of_live(1) [OF assms(1,2)] slots_of_live(1) [OF assms(3,4)]
  by (simp add: op_lt_def std_lexicographical_compare_values)

text \<open>
  Claim C9. For two vectors whose live elements are the values \<open>xs\<close> and \<open>ys\<close>:
  \<^verbatim>\<open>==\<close> holds exactly when the sizes match and all corresponding elements compare equal
  in order; \<^verbatim>\<open><\<close> is the lexicographic comparison of \<open>xs\<close> and \<open>ys\<close> by the elements'
  less-than; \<^verbatim>\<open>!=\<close> is the negation of \<^verbatim>\<open>==\<close>; \<^verbatim>\<open>a > b\<close> is \<^verbatim>\<open>b < a\<close>; \<^verbatim>\<open>a <= b\<close> is
  \<^verbatim>\<open>a < b\<close> or \<^verbatim>\<open>a == b\<close>; \<^verbatim>\<open>a >= b\<close> is \<^verbatim>\<open>b < a\<close> or \<^verbatim>\<open>b == a\<close>. The elements'
  \<^verbatim>\<open>operator==\<close> and \<^verbatim>\<open>operator<\<close> are arbitrary.
\<close>

theorem comparison_operators:
  assumes "elems lhs = map Some xs" and "length xs = unat (GetSize lhs)"
      and "elems rhs = map Some ys" and "length ys = unat (GetSize rhs)"
  shows "op_eq eq lhs rhs = Inr (GetSize lhs = GetSize rhs \<and> all_equal eq xs ys)
     \<and> op_ne eq lhs rhs = Inr (\<not> (GetSize lhs = GetSize rhs \<and> all_equal eq xs ys))
     \<and> op_lt lt lhs rhs = Inr (lexicographic_less lt xs ys)
     \<and> op_gt lt lhs rhs = Inr (lexicographic_less lt ys xs)
     \<and> op_le eq lt lhs rhs =
         Inr (lexicographic_less lt xs ys \<or> (GetSize lhs = GetSize rhs \<and> all_equal eq xs ys))
     \<and> op_ge eq lt lhs rhs =
         Inr (lexicographic_less lt ys xs \<or> (GetSize rhs = GetSize lhs \<and> all_equal eq ys xs))
     \<and> op_ne eq lhs rhs = Inr (\<not> projr (op_eq eq lhs rhs))
     \<and> op_gt lt lhs rhs = op_lt lt rhs lhs
     \<and> op_le eq lt lhs rhs = Inr (projr (op_lt lt lhs rhs) \<or> projr (op_eq eq lhs rhs))
     \<and> op_ge eq lt lhs rhs = Inr (projr (op_lt lt rhs lhs) \<or> projr (op_eq eq rhs lhs))"
  using op_eq_values [OF assms, of eq] op_eq_values [OF assms(3,4,1,2), of eq]
    op_lt_values [OF assms, of lt] op_lt_values [OF assms(3,4,1,2), of lt]
  by (simp add: op_ne_def op_gt_def op_le_def op_ge_def)

lemma elems_vec123: "elems vec123 = map Some [1, 2, 3]"
  by (simp add: elems_def vec123_def cells_def)

lemma elems_vec1234: "elems vec1234 = map Some [1, 2, 3, 4]"
  by (simp add: elems_def vec1234_def cells_def)

theorem comparison_operators_witness:
  "elems vec123 = map Some [1, 2, 3] \<and> length [1, 2, 3 :: int] = unat (GetSize vec123)
   \<and> elems vec1234 = map Some [1, 2, 3, 4] \<and> length [1, 2, 3, 4 :: int] = unat (GetSize vec1234)
   \<and> op_eq (=) vec123 vec123 = Inr True
   \<and> op_eq (=) vec123 vec1234 = Inr False \<and> op_ne (=) vec123 vec1234 = Inr True
   \<and> op_lt (<) vec123 vec1234 = Inr True \<and> op_gt (<) vec123 vec1234 = Inr False
   \<and> op_le (=) (<) vec123 vec1234 = Inr True \<and> op_ge (=) (<) vec123 vec1234 = Inr False"
proof -
  have l3: "length [1, 2, 3 :: int] = unat (GetSize vec123)"
    by (simp add: GetSize_def vec123_def)
  have l4: "length [1, 2, 3, 4 :: int] = unat (GetSize vec1234)"
    by (simp add: GetSize_def vec1234_def)
  have ne: "GetSize vec123 \<noteq> GetSize vec1234" by (simp add: GetSize_def vec123_def vec1234_def)
  note a = comparison_operators [OF elems_vec123 l3 elems_vec1234 l4, of "(=)" "(<)"]
  note b = comparison_operators [OF elems_vec123 l3 elems_vec123 l3, of "(=)" "(<)"]
  have "op_eq (=) vec123 vec123 = Inr True" using b by simp
  moreover have "op_eq (=) vec123 vec1234 = Inr False" using a ne by simp
  moreover have "op_ne (=) vec123 vec1234 = Inr True" using a ne by simp
  moreover have "op_lt (<) vec123 vec1234 = Inr True" using a by simp
  moreover have "op_gt (<) vec123 vec1234 = Inr False" using a by simp
  moreover have "op_le (=) (<) vec123 vec1234 = Inr True" using a by simp
  moreover have "op_ge (=) (<) vec123 vec1234 = Inr False" using a ne by simp
  ultimately show ?thesis using elems_vec123 elems_vec1234 l3 l4 by simp
qed

section \<open>Which vectors satisfy the data model\<close>

text \<open>
  Every operation that returns normally keeps the data model, and every constructor but
  the reserving one establishes it. So a vector that can be built either satisfies the
  data model or is empty and has no buffer.
\<close>

lemma Erase_loop_length:
  "Erase_loop b it stop = Inr b' \<Longrightarrow> length b' = length b"
proof (induction b it stop rule: Erase_loop.induct)
  case (1 b it stop)
  then show ?case
    by (subst (asm) (2) Erase_loop.simps) (auto split: if_splits)
qed

lemma std_generate_InrD:
  "std_generate p a b g = Inr q \<Longrightarrow>
   a \<le> b \<and> b \<le> length (cells p) \<and> length (cells q) = length (cells p)"
  by (auto simp: std_generate_def split: if_splits)

lemma std_copy_list_InrD:
  "std_copy_list xs p = Inr q \<Longrightarrow>
   length xs \<le> length (cells p) \<and> length (cells q) = length (cells p)"
  by (auto simp: std_copy_list_def split: if_splits)

lemma PushBack_wf:
  assumes "PushBack dflt x w = Inr v" "well_formed w \<or> bufferless w"
  shows "well_formed v"
proof (cases "size_m w \<ge> capacity_m w")
  case False
  with assms show ?thesis
    by (auto simp: PushBack_def well_formed_def bufferless_def not_le succ_le
        dest!: and_then_InrD ArrayPtr_assign_InrD)
next
  case True
  with assms(1) show ?thesis
    apply (simp add: PushBack_def Let_def)
    apply (auto simp: well_formed_def succ_le_nat 
           dest!: and_then_InrD std_fill_InrD std_copy_InrD ArrayPtr_assign_InrD)
    done
qed

lemma Insert_wf:
  assumes "Insert dflt pos x w = Inr (v, it)" "well_formed w \<or> bufferless w"
  shows "well_formed v"
proof (cases "size_m w \<ge> capacity_m w")
  case False
  with assms show ?thesis
    by (auto simp: Insert_def Let_def well_formed_def bufferless_def not_le succ_le
        dest!: and_then_InrD ArrayPtr_assign_InrD std_copy_backward_InrD)
next
  case True
  with assms(1) show ?thesis
    apply (simp add: Insert_def Let_def)
    apply (auto simp: well_formed_def succ_le_nat
           dest!: and_then_InrD std_fill_InrD std_copy_InrD ArrayPtr_assign_InrD)
    done
qed

lemma Resize_wf:
  assumes "Resize dflt n w = Inr v" "well_formed w \<or> bufferless w"
  shows "well_formed v \<or> bufferless v"
  using assms
  apply (auto simp: Resize_def Let_def well_formed_def bufferless_def not_less std_move_def
      word_le_nat_alt word_less_nat_alt unat_eq_0
      dest!: and_then_InrD std_generate_InrD std_copy_InrD split: if_splits)
  done

lemma Reserve_wf:
  assumes "Reserve dflt n w = Inr v" "well_formed w \<or> bufferless w"
  shows "well_formed v \<or> bufferless v"
  using assms
  apply (auto simp: Reserve_def Let_def well_formed_def bufferless_def not_le
      word_le_nat_alt word_less_nat_alt
      dest!: and_then_InrD std_fill_InrD std_copy_InrD split: if_splits)
  done

lemma Erase_wf:
  assumes "Erase pos w = Inr (v, it)" "well_formed w \<or> bufferless w"
  shows "well_formed v"
  using assms
  apply (auto simp: Erase_def Let_def well_formed_def bufferless_def pred_le
      dest!: and_then_InrD Erase_loop_length split: if_splits)
  done

lemma count_wf: "SimpleVector_count dflt n = Inr v \<Longrightarrow> well_formed v"
  by (auto simp: SimpleVector_count_def Let_def well_formed_def dest!: and_then_InrD std_fill_InrD)

lemma value_wf: "SimpleVector_value n x = Inr v \<Longrightarrow> well_formed v"
  by (auto simp: SimpleVector_value_def Let_def well_formed_def dest!: and_then_InrD std_fill_InrD)

lemma init_wf: "SimpleVector_init xs = Inr v \<Longrightarrow> well_formed v"
  by (auto simp: SimpleVector_init_def Let_def well_formed_def dest!: and_then_InrD std_copy_list_InrD)

lemma reserve_bufferless: "SimpleVector_reserve dflt obj = Inr v \<Longrightarrow> bufferless v"
  by (auto simp: SimpleVector_reserve_def Let_def SimpleVector_default_def Reserve_def
      ArrayPtr_default_def bufferless_def cells_def)

lemma copy_wf: "SimpleVector_copy dflt w = Inr v \<Longrightarrow> well_formed v"
  by (auto simp: SimpleVector_copy_def Let_def swap_vec_def well_formed_def 
       dest!: and_then_InrD count_wf std_copy_InrD)

lemma reachable_well_formed:
  "reachable dflt v \<Longrightarrow> well_formed v \<or> bufferless v"
proof (induction rule: reachable.induct)
  case by_default
  show ?case
    by (simp add: SimpleVector_default_def well_formed_def ArrayPtr_default_def cells_def)
next
  case (after_PopBack w)
  then show ?case
    by (auto simp: PopBack_def GetSize_def well_formed_def bufferless_def pred_le)
next
  case (by_move w)
  then show ?case
    by (auto simp: SimpleVector_move_def ArrayPtr_move_def well_formed_def bufferless_def cells_def)
next
  case (moved_from w)
  then show ?case
    by (auto simp: SimpleVector_move_def ArrayPtr_move_def well_formed_def bufferless_def cells_def)
next
  case (after_Clear w)
  then show ?case
    by (auto simp: Clear_def well_formed_def bufferless_def)
next
  case (after_swap w u)
  then show ?case
    by (auto simp: swap_vec_def well_formed_def bufferless_def)
next
  case (swapped w u)
  then show ?case
    by (auto simp: swap_vec_def well_formed_def bufferless_def)
qed (auto simp: PushBack_rv_eq Insert_rv_eq
      dest: count_wf value_wf init_wf reserve_bufferless copy_wf PushBack_wf Insert_wf
        Erase_wf Resize_wf Reserve_wf)

section \<open>The live slots hold values\<close>

text \<open>
  Every operation that returns normally writes each slot that it brings below the size,
  so the live elements of a vector that can be built are values, as many as the size.
\<close>

lemma unat_succ_lt: "unat (x::size_t) < unat (y::size_t) \<Longrightarrow> unat (x + 1) = Suc (unat x)"
  using unat_succ [of x y] by (simp add: word_less_nat_alt)

lemma unat_succ_Suc_le: "Suc (unat (x::size_t)) \<le> unat (y::size_t) \<Longrightarrow> unat (x + 1) = Suc (unat x)"
  using unat_succ_lt [of x y] by simp

lemma Erase_loop_nth:
  "Erase_loop b it stop = Inr b' \<Longrightarrow> stop < length b \<Longrightarrow>
   (\<forall>i \<le> stop. b ! i \<noteq> None) \<Longrightarrow> (\<forall>i \<le> stop. b' ! i \<noteq> None)"
proof (induction b it stop arbitrary: b' rule: Erase_loop.induct)
  case (1 b it stop)
  show ?case
  proof (cases "it = stop")
    case True
    with "1.prems" show ?thesis by (simp add: Erase_loop.simps [of b stop stop])
  next
    case ne: False
    let ?b = "b[it := b ! (it + 1)]"
    show ?thesis
    proof (cases "it + 1 < length b")
      case l: True
      with ne "1.prems"(1) have r: "Erase_loop (b[it := b ! (it + 1)]) (it + 1) stop = Inr b'"
        by (simp add: Erase_loop.simps [of b it stop])
      show ?thesis
      proof (cases "it < stop")
        case True
        have "\<forall>i \<le> stop. ?b ! i \<noteq> None"
          using "1.prems"(2,3) True by (auto simp: nth_list_update)
        with "1.IH" [OF ne l r] "1.prems"(2) show ?thesis by simp
      next
        case g: False
        have "\<forall>i \<le> stop. ?b ! i \<noteq> None"
          using "1.prems"(2,3) g ne by (auto simp: nth_list_update)
        with "1.IH" [OF ne l r] "1.prems"(2) show ?thesis by simp
      qed
    next
      case False
      with ne "1.prems"(1) show ?thesis
        by (simp add: Erase_loop.simps [of b it stop])
    qed
  qed
qed

lemma std_fill_cells:
  "std_fill p a b x = Inr q \<Longrightarrow>
   cells q = take a (cells p) @ replicate (b - a) (Some x) @ drop b (cells p)
   \<and> a \<le> b \<and> b \<le> length (cells p)"
  by (auto simp: std_fill_def split: if_splits)

lemma std_generate_cells:
  "std_generate p a b g = Inr q \<Longrightarrow>
   cells q = take a (cells p) @ replicate (b - a) (Some (g ())) @ drop b (cells p)
   \<and> a \<le> b \<and> b \<le> length (cells p)"
  by (auto simp: std_generate_def split: if_splits)

lemma std_copy_cells:
  "std_copy src a b dst d = Inr q \<Longrightarrow>
   cells q = take d (cells dst) @ take (b - a) (drop a (cells src)) @ drop (d + (b - a)) (cells dst)
   \<and> a \<le> b \<and> b \<le> length (cells src) \<and> d + (b - a) \<le> length (cells dst)"
  by (auto simp: std_copy_def split: if_splits)

lemma std_copy_backward_cells:
  "std_copy_backward p a b d = Inr q \<Longrightarrow>
   cells q = take (d - (b - a)) (cells p) @ take (b - a) (drop a (cells p)) @ drop d (cells p)
   \<and> a \<le> b \<and> b \<le> length (cells p) \<and> b - a \<le> d \<and> d \<le> length (cells p)"
  by (auto simp: std_copy_backward_def split: if_splits)

lemma std_copy_list_cells:
  "std_copy_list xs p = Inr q \<Longrightarrow>
   cells q = map Some xs @ drop (length xs) (cells p) \<and> length xs \<le> length (cells p)"
  by (auto simp: std_copy_list_def split: if_splits)

lemma ArrayPtr_assign_cells:
  "ArrayPtr_assign p i x = Inr q \<Longrightarrow> cells q = (cells p)[i := Some x] \<and> i < length (cells p)"
  by (auto simp: ArrayPtr_assign_def split: if_splits)

lemma PushBack_written:
  assumes "PushBack dflt el w = Inr v" "written w"
  shows "written v"
proof (cases "size_m w \<ge> capacity_m w")
  case False
  with assms show ?thesis
    apply (auto simp: PushBack_def written_def not_le unat_succ nth_list_update
        dest!: and_then_InrD ArrayPtr_assign_cells)
    done
next
  case True
  with assms show ?thesis
    apply (simp add: PushBack_def Let_def)
    apply (auto simp: written_def nth_list_update nth_append unat_succ_lt unat_eq_0
           dest!: and_then_InrD std_fill_cells std_copy_cells ArrayPtr_assign_cells)
    done
qed


lemma Insert_written:
  assumes "Insert dflt pos el w = Inr (v, it)" "written w"
  shows "written v"
proof (cases "size_m w \<ge> capacity_m w")
  case False
  with assms show ?thesis
    apply (simp add: Insert_def Let_def)
    apply (auto simp: written_def not_le unat_succ nth_list_update nth_append unat_succ_lt
        dest!: and_then_InrD ArrayPtr_assign_cells std_copy_backward_cells)
    done
next
  case True
  with assms show ?thesis
    apply (simp add: Insert_def Let_def)
    apply (auto simp: written_def nth_list_update nth_append unat_succ_lt unat_eq_0
           unat_succ_Suc_le take_Suc_list_update nth_Cons'
           dest!: and_then_InrD std_fill_cells std_copy_cells ArrayPtr_assign_cells)
    done
qed

lemma Resize_written:
  assumes "Resize dflt n w = Inr v" "written w"
  shows "written v"
  using assms
  apply (auto simp: Resize_def Let_def written_def not_less std_move_def nth_append
      word_le_nat_alt word_less_nat_alt
      dest!: and_then_InrD std_generate_cells std_copy_cells split: if_splits)
  done

lemma Reserve_written:
  assumes "Reserve dflt n w = Inr v" "written w"
  shows "written v"
  using assms
  apply (auto simp: Reserve_def Let_def written_def not_le nth_append
      word_le_nat_alt word_less_nat_alt
      dest!: and_then_InrD std_fill_cells std_copy_cells split: if_splits)
  done


lemma Erase_written:
  assumes "Erase pos w = Inr (v, it)" "written w"
  shows "written v"
proof -
  from assms(1) have nz: "size_m w \<noteq> 0" by (auto simp: Erase_def split: if_splits)
  from assms(1) nz obtain b where l: "Erase_loop (cells (data_m w)) pos (end_it w - 1) = Inr b"
    and v: "v = w\<lparr>data_m := with_cells (data_m w) b, size_m := size_m w - 1\<rparr>"
    by (auto simp: Erase_def Let_def dest!: and_then_InrD)
  from Erase_loop_length [OF l] have len: "length b = length (cells (data_m w))" .
  from nz have p: "0 < unat (size_m w)" by (simp add: unat_gt_0)
  from assms(2) p have s: "end_it w - 1 < length (cells (data_m w))"
    and a: "\<forall>i \<le> end_it w - 1. cells (data_m w) ! i \<noteq> None"
    by (auto simp: written_def end_it_def)
  from Erase_loop_nth [OF l s a] have "\<forall>i \<le> end_it w - 1. b ! i \<noteq> None" .
  with v len nz p assms(2) show ?thesis
    by (auto simp: written_def end_it_def unat_pred)
qed

lemma count_written: "SimpleVector_count dflt n = Inr v \<Longrightarrow> written v"
  by (auto simp: SimpleVector_count_def Let_def written_def nth_append
      dest!: and_then_InrD std_fill_cells)

lemma value_written: "SimpleVector_value n x = Inr v \<Longrightarrow> written v"
  by (auto simp: SimpleVector_value_def Let_def written_def nth_append
      dest!: and_then_InrD std_fill_cells)

lemma init_written:
  assumes "SimpleVector_init xs = Inr v"
  shows "written v"
proof -
  have "unat (word_of_nat (length xs) :: size_t) \<le> length xs"
    by (simp add: unat_of_nat)
  with assms show ?thesis
    by (auto simp: SimpleVector_init_def Let_def written_def nth_append
        dest!: and_then_InrD std_copy_list_cells)
qed

lemma reserve_written: "SimpleVector_reserve dflt obj = Inr v \<Longrightarrow> written v"
  by (auto simp: SimpleVector_reserve_def Let_def SimpleVector_default_def Reserve_def
      ArrayPtr_default_def written_def cells_def)

lemma copy_written:
  assumes c: "SimpleVector_copy dflt w = Inr v" and w: "written w"
  shows "written v"
proof -
  define n where "n = unat (size_m w)"
  have cap: "(word_of_nat (end_it w - begin_it w) :: size_t) = size_m w"
    by (simp add: end_it_def begin_it_def)
  from c obtain temp d where t: "SimpleVector_count dflt (size_m w) = Inr temp"
    and d: "std_copy (data_m w) 0 n (data_m temp) 0 = Inr d"
    and v: "v = \<lparr>size_m = size_m temp, capacity_m = capacity_m temp, data_m = d\<rparr>"
    by (auto simp: SimpleVector_copy_def Let_def cap swap_vec_def begin_it_def end_it_def
        n_def SimpleVector_default_def dest!: and_then_InrD)
  from t have s: "size_m temp = size_m w"
    by (auto simp: SimpleVector_count_def Let_def dest!: and_then_InrD)
  from std_copy_cells [OF d]
  have cd: "cells d = take n (cells (data_m w)) @ drop n (cells (data_m temp))"
    and le: "n \<le> length (cells (data_m w))"
    by simp_all
  from w have "\<forall>i < n. cells (data_m w) ! i \<noteq> None" by (simp add: written_def n_def)
  with v s cd le show ?thesis
    by (auto simp: written_def nth_append simp flip: n_def)
qed


lemma reachable_written: "reachable dflt v \<Longrightarrow> written v"
proof (induction rule: reachable.induct)
  case by_default
  show ?case
    by (simp add: SimpleVector_default_def written_def ArrayPtr_default_def cells_def)
next
  case (after_PopBack w)
  then have "0 < unat (size_m w)" by (simp add: GetSize_def word_less_nat_alt)
  with after_PopBack show ?case
    by (auto simp: PopBack_def GetSize_def written_def unat_pred)
next
  case (by_move w)
  then show ?case
    by (auto simp: SimpleVector_move_def ArrayPtr_move_def written_def cells_def)
next
  case (moved_from w)
  then show ?case
    by (auto simp: SimpleVector_move_def ArrayPtr_move_def written_def cells_def)
next
  case (after_Clear w)
  then show ?case by (auto simp: Clear_def written_def)
next
  case (after_swap w u)
  then show ?case by (auto simp: swap_vec_def written_def)
next
  case (swapped w u)
  then show ?case by (auto simp: swap_vec_def written_def)
next
  case (by_count n v)
  then show ?case by (rule count_written)
next
  case (by_value n val v)
  then show ?case by (rule value_written)
next
  case (by_init init v)
  then show ?case by (rule init_written)
next
  case (by_reserve obj v)
  then show ?case by (rule reserve_written)
next
  case (by_copy w v)
  show ?case by (rule copy_written [OF by_copy(2,3)])
next
  case (after_PushBack w x v)
  show ?case by (rule PushBack_written [OF after_PushBack(2,3)])
next
  case (after_PushBack_rv w x v)
  then show ?case using PushBack_written [of dflt x w v] by (simp add: PushBack_rv_eq)
next
  case (after_Insert w pos x v it)
  show ?case by (rule Insert_written [OF after_Insert(4,5)])
next
  case (after_Insert_rv w pos x v it)
  then show ?case using Insert_written [of dflt pos x w v it] by (simp add: Insert_rv_eq)
next
  case (after_Erase w pos v it)
  show ?case by (rule Erase_written [OF after_Erase(4,5)])
next
  case (after_Resize w n v)
  show ?case by (rule Resize_written [OF after_Resize(2,3)])
next
  case (after_Reserve w n v)
  show ?case by (rule Reserve_written [OF after_Reserve(2,3)])
qed


lemma reachable_live_values:
  assumes "reachable dflt v"
  shows "\<exists>xs. elems v = map Some xs \<and> length xs = unat (GetSize v)"
proof -
  from reachable_written [OF assms]
  have l: "unat (size_m v) \<le> length (cells (data_m v))"
    and w: "\<forall>i < unat (size_m v). cells (data_m v) ! i \<noteq> None"
    by (simp_all add: written_def)
  have "elems v = map Some (map the (elems v))"
    using l w by (auto simp: elems_def intro!: nth_equalityI)
  moreover have "length (map the (elems v)) = unat (GetSize v)"
    using l by (simp add: elems_def GetSize_def)
  ultimately show ?thesis by blast
qed

end
